theory Spec2Isabelle
  imports Complex_Main "HOL-Library.AList"
begin

section \<open>Data model\<close>

text \<open>
  The two services of the repository are embedded here:
  \<^verbatim>\<open>facialEmotionDetector.ts\<close> (the temporal smoother) and
  \<^verbatim>\<open>multiModalEmotionContext.ts\<close> (the fusion engine).

  Conventions of the embedding.
  \<^item> A JavaScript \<^verbatim>\<open>number\<close> is a \<^typ>\<open>real\<close>: arithmetic is exact, rounding of
    IEEE doubles, NaN and the infinities are not represented.
  \<^item> Every call of \<^verbatim>\<open>Date.now()\<close> is an argument of the operation that makes it.
  \<^item> A \<^verbatim>\<open>Record<string, number>\<close> built from \<^verbatim>\<open>{}\<close> is an association list in
    the order in which its keys were first written; that is the order of
    \<^verbatim>\<open>Object.keys\<close> and \<^verbatim>\<open>Object.entries\<close> for the keys called plain below.
  \<^item> Fields of different interfaces that share a name carry a prefix
    (\<open>fed_\<close>, \<open>ses_\<close>, \<open>ved_\<close>, \<open>ted_\<close>, \<open>he_\<close>); the fields of
    \<^verbatim>\<open>MultiModalEmotionState\<close> keep their names.
\<close>

type_synonym timestamp = int

text \<open>\<^verbatim>\<open>Object.entries(expressions)\<close>: the categories of the classifier with their
  probabilities, in the order in which the object enumerates them.\<close>

type_synonym expressions = "(string \<times> real) list"

record FacialEmotionData =
  fed_emotion :: string
  fed_confidence :: real
  fed_expressions :: expressions
  fed_timestamp :: timestamp

record SmoothedEmotionState =
  ses_emotion :: string
  ses_confidence :: real
  ses_history :: "FacialEmotionData list"
  ses_lastUpdate :: timestamp

record TextEmotionData =
  ted_emotion :: string
  ted_confidence :: real
  ted_timestamp :: timestamp

record VoiceEmotionData =
  ved_emotion :: string
  ved_confidence :: real
  ved_tone :: string
  ved_timestamp :: timestamp

datatype source = Facial | Voice | Text | Merged

record history_entry =
  he_emotion :: string
  he_source :: source
  he_timestamp :: timestamp

record MultiModalEmotionState =
  facialEmotion :: "SmoothedEmotionState option"
  voiceEmotion :: "VoiceEmotionData option"
  textEmotion :: "TextEmotionData option"
  sessionDuration :: real
  mergedEmotion :: string
  confidence :: real
  lastUpdate :: timestamp
  emotionHistory :: "history_entry list"

subsection \<open>Records keyed by strings\<close>

type_synonym scores = "(string \<times> real) list"

text \<open>\<^verbatim>\<open>r[k] || 0\<close>: the stored number, and 0 when the key is absent (a stored 0 is
  falsy and reads as 0 as well).\<close>

definition get_or0 :: "scores \<Rightarrow> string \<Rightarrow> real" where
  "get_or0 r k = (case map_of r k of None \<Rightarrow> 0 | Some v \<Rightarrow> if v = 0 then 0 else v)"

text \<open>\<^verbatim>\<open>r[k] = v\<close>: overwrite in place, or append a new key.\<close>

definition put :: "string \<Rightarrow> real \<Rightarrow> scores \<Rightarrow> scores" where
  "put k v r = AList.update k v r"

text \<open>\<^verbatim>\<open>r[k] = (r[k] || 0) + x\<close>, the accumulation used by both services.\<close>

definition add_to :: "string \<Rightarrow> real \<Rightarrow> scores \<Rightarrow> scores" where
  "add_to k x r = put k (get_or0 r k + x) r"

text \<open>\<^verbatim>\<open>r[k]\<close> for a key that has been written before the read. (For an absent key
  the read would be \<^verbatim>\<open>undefined\<close>; the lemmas \<open>counted_key_present\<close> and
  \<open>tired_key_present\<close> show that the reads below never meet that case.)\<close>

definition get_own :: "scores \<Rightarrow> string \<Rightarrow> real" where
  "get_own r k = (case map_of r k of None \<Rightarrow> 0 | Some v \<Rightarrow> v)"

text \<open>
  The body of the three loops that look for a largest entry,
  \<^verbatim>\<open>if (v > max) { max = v; dominant = k; }\<close>, on the pair (\<^verbatim>\<open>dominant\<close>, \<^verbatim>\<open>max\<close>).
\<close>

definition max_step :: "string \<times> real \<Rightarrow> string \<times> real \<Rightarrow> string \<times> real" where
  "max_step entry acc =
     (case entry of (k, v) \<Rightarrow> case acc of (dominantEmotion, maxValue) \<Rightarrow>
        if v > maxValue then (k, v) else (dominantEmotion, maxValue))"

text \<open>\<^verbatim>\<open>xs.push(x); if (xs.length > limit) xs.shift();\<close>\<close>

definition push_shift :: "nat \<Rightarrow> 'a \<Rightarrow> 'a list \<Rightarrow> 'a list" where
  "push_shift limit x xs =
     (let xs' = xs @ [x] in if length xs' > limit then tl xs' else xs')"

text \<open>
  The association list is exact for plain keys. A fresh object inherits the members of
  \<^verbatim>\<open>Object.prototype\<close>, so \<^verbatim>\<open>r[k] || 0\<close> does not read 0 for their names, and
  keys that are array indices (strings of decimal digits) are enumerated before all
  others, in numeric order. Both kinds of key are outside the vocabulary of emotion
  labels (\<open>emotion_labels_plain\<close>); the statements below that depend on the contents
  of such a record name the restriction.
\<close>

definition object_prototype_keys :: "string list" where
  "object_prototype_keys =
     [''constructor'', ''__proto__'', ''hasOwnProperty'', ''isPrototypeOf'',
      ''propertyIsEnumerable'', ''toString'', ''toLocaleString'', ''valueOf'',
      ''__defineGetter__'', ''__defineSetter__'', ''__lookupGetter__'',
      ''__lookupSetter__'']"

definition digits_only :: "string \<Rightarrow> bool" where
  "digits_only k = (k \<noteq> [] \<and> list_all (\<lambda>c. c \<in> set ''0123456789'') k)"

definition plain_key :: "string \<Rightarrow> bool" where
  "plain_key k = (k \<notin> set object_prototype_keys \<and> \<not> digits_only k)"

section \<open>The fusion engine\<close>

definition facial_weight :: real where "facial_weight = 0.5"
definition voice_weight :: real where "voice_weight = 0.3"
definition text_weight :: real where "text_weight = 0.2"

definition emotionHistoryLimit :: nat where "emotionHistoryLimit = 50"

text \<open>The field initialiser of \<^verbatim>\<open>currentState\<close>, evaluated when the engine is created.\<close>

definition initial_state :: "timestamp \<Rightarrow> MultiModalEmotionState" where
  "initial_state now =
     \<lparr> facialEmotion = None, voiceEmotion = None, textEmotion = None,
       sessionDuration = 0, mergedEmotion = ''neutral'', confidence = 0.5,
       lastUpdate = now, emotionHistory = [] \<rparr>"

text \<open>The array \<^verbatim>\<open>emotions\<close>: one entry for each channel that is present, in the order
  facial, voice, text.\<close>

definition collect_emotions :: "MultiModalEmotionState \<Rightarrow> (string \<times> real) list" where
  "collect_emotions s =
     (case facialEmotion s of None \<Rightarrow> [] | Some f \<Rightarrow> [(ses_emotion f, facial_weight)]) @
     (case voiceEmotion s of None \<Rightarrow> [] | Some v \<Rightarrow> [(ved_emotion v, voice_weight)]) @
     (case textEmotion s of None \<Rightarrow> [] | Some t \<Rightarrow> [(ted_emotion t, text_weight)])"

text \<open>The first \<^verbatim>\<open>forEach\<close>: per-label totals and the sum of all weights.\<close>

definition accumulate_step :: "string \<times> real \<Rightarrow> scores \<times> real \<Rightarrow> scores \<times> real" where
  "accumulate_step ew acc =
     (case ew of (e, w) \<Rightarrow> case acc of (sc, totalWeight) \<Rightarrow>
        (add_to e w sc, totalWeight + w))"

definition accumulate :: "(string \<times> real) list \<Rightarrow> scores \<times> real" where
  "accumulate emotions = fold accumulate_step emotions ([], 0)"

text \<open>The second \<^verbatim>\<open>forEach\<close>: every stored total is divided by \<^verbatim>\<open>totalWeight\<close>.\<close>

definition normalize :: "real \<Rightarrow> scores \<Rightarrow> scores" where
  "normalize totalWeight sc = map (\<lambda>(e, v). (e, v / totalWeight)) sc"

text \<open>The session duration heuristics (45 * 60 = 2700 and 90 * 60 = 5400 seconds).\<close>

definition apply_duration :: "real \<Rightarrow> scores \<Rightarrow> scores" where
  "apply_duration duration sc =
     (let sc0 = put ''tired'' (get_or0 sc ''tired'') sc;
          sc1 = (if duration > 45 * 60
                 then put ''tired'' (get_own sc0 ''tired'' + 0.1) sc0 else sc0);
          sc2 = (if duration > 90 * 60
                 then put ''tired'' (get_own sc1 ''tired'' + 0.15) sc1 else sc1)
      in sc2)"

text \<open>The search for the dominant emotion: the pair
  (\<^verbatim>\<open>dominantEmotion\<close>, \<^verbatim>\<open>maxScore\<close>) threaded through \<^verbatim>\<open>Object.entries\<close>.\<close>

definition dominant :: "scores \<Rightarrow> string \<times> real" where
  "dominant sc = fold max_step sc (''neutral'', 0)"

definition emotionScores :: "MultiModalEmotionState \<Rightarrow> scores" where
  "emotionScores s =
     (case accumulate (collect_emotions s) of (sc, totalWeight) \<Rightarrow>
        apply_duration (sessionDuration s) (normalize totalWeight sc))"

definition recomputeMergedEmotion ::
  "timestamp \<Rightarrow> MultiModalEmotionState \<Rightarrow> MultiModalEmotionState" where
  "recomputeMergedEmotion now s =
     (if collect_emotions s = []
      then s\<lparr> mergedEmotion := ''neutral'', confidence := 0.5 \<rparr>
      else case dominant (emotionScores s) of (dominantEmotion, maxScore) \<Rightarrow>
        s\<lparr> mergedEmotion := dominantEmotion,
           confidence := min maxScore 1,
           emotionHistory :=
             push_shift emotionHistoryLimit
               \<lparr> he_emotion = dominantEmotion, he_source = Merged, he_timestamp = now \<rparr>
               (emotionHistory s) \<rparr>)"

text \<open>The four update operations. Those that stamp \<^verbatim>\<open>lastUpdate\<close> read the clock
  twice: \<open>now\<close> for the stamp and \<open>now'\<close> inside the recompute.\<close>

definition updateFacialEmotion ::
  "SmoothedEmotionState \<Rightarrow> timestamp \<Rightarrow> timestamp \<Rightarrow>
   MultiModalEmotionState \<Rightarrow> MultiModalEmotionState" where
  "updateFacialEmotion f now now' s =
     recomputeMergedEmotion now' (s\<lparr> facialEmotion := Some f, lastUpdate := now \<rparr>)"

definition updateVoiceEmotion ::
  "VoiceEmotionData \<Rightarrow> timestamp \<Rightarrow> timestamp \<Rightarrow>
   MultiModalEmotionState \<Rightarrow> MultiModalEmotionState" where
  "updateVoiceEmotion v now now' s =
     recomputeMergedEmotion now' (s\<lparr> voiceEmotion := Some v, lastUpdate := now \<rparr>)"

definition updateTextEmotion ::
  "TextEmotionData \<Rightarrow> timestamp \<Rightarrow> timestamp \<Rightarrow>
   MultiModalEmotionState \<Rightarrow> MultiModalEmotionState" where
  "updateTextEmotion t now now' s =
     recomputeMergedEmotion now' (s\<lparr> textEmotion := Some t, lastUpdate := now \<rparr>)"

definition updateSessionDuration ::
  "real \<Rightarrow> timestamp \<Rightarrow> MultiModalEmotionState \<Rightarrow> MultiModalEmotionState" where
  "updateSessionDuration seconds now' s =
     recomputeMergedEmotion now' (s\<lparr> sessionDuration := seconds \<rparr>)"

definition reset :: "timestamp \<Rightarrow> MultiModalEmotionState \<Rightarrow> MultiModalEmotionState" where
  "reset now s =
     \<lparr> facialEmotion = None, voiceEmotion = None, textEmotion = None,
       sessionDuration = 0, mergedEmotion = ''neutral'', confidence = 0.5,
       lastUpdate = now, emotionHistory = [] \<rparr>"

subsection \<open>Response guidelines\<close>

datatype tone = Energetic | Calm | Supportive | Patient | Professional
datatype verbosity = Minimal | Concise | Normal | Detailed
datatype detail = Simplified | StepByStep | Comprehensive
datatype pitch = LowPitch | MediumPitch | HighPitch
datatype pace = SlowPace | MediumPace | FastPace | NormalPace

record voiceSettings =
  vs_pitch :: pitch
  vs_pace :: pace
  vs_emotion :: string

record EmotionResponseGuidelines =
  tone :: tone
  verbosity :: verbosity
  detail :: detail
  suggestions :: "string list"
  breakNeeded :: bool
  encouragement :: bool
  voiceSettings :: voiceSettings

definition getResponseGuidelines :: "MultiModalEmotionState \<Rightarrow> EmotionResponseGuidelines" where
  "getResponseGuidelines s =
     (let emotion = mergedEmotion s in
      if emotion = ''happy'' \<or> emotion = ''focused'' then
        \<lparr> tone = Energetic, verbosity = Normal, detail = Comprehensive,
          suggestions = [''Continue learning'', ''Maintain momentum''],
          breakNeeded = False, encouragement = True,
          voiceSettings = \<lparr> vs_pitch = HighPitch, vs_pace = FastPace, vs_emotion = ''happy'' \<rparr> \<rparr>
      else if emotion = ''stressed'' \<or> emotion = ''anxious'' then
        \<lparr> tone = Calm, verbosity = Concise, detail = Simplified,
          suggestions = [''Take a short break'', ''Try a breathing exercise'',
                         ''Move to a different location''],
          breakNeeded = True, encouragement = True,
          voiceSettings = \<lparr> vs_pitch = LowPitch, vs_pace = SlowPace, vs_emotion = ''calm'' \<rparr> \<rparr>
      else if emotion = ''tired'' \<or> emotion = ''sad'' then
        \<lparr> tone = Supportive, verbosity = Minimal, detail = Simplified,
          suggestions = [''Take a longer break'', ''Try a 10-minute power nap'',
                         ''Go for a walk'', ''Stretch and move around''],
          breakNeeded = True, encouragement = True,
          voiceSettings = \<lparr> vs_pitch = MediumPitch, vs_pace = SlowPace, vs_emotion = ''calm'' \<rparr> \<rparr>
      else if emotion = ''confused'' then
        \<lparr> tone = Patient, verbosity = Detailed, detail = StepByStep,
          suggestions = [''Break down the problem'', ''Use analogies'',
                         ''Start with fundamentals''],
          breakNeeded = False, encouragement = True,
          voiceSettings = \<lparr> vs_pitch = MediumPitch, vs_pace = MediumPace, vs_emotion = ''calm'' \<rparr> \<rparr>
      else
        \<lparr> tone = Professional, verbosity = Normal, detail = Comprehensive,
          suggestions = [''Keep learning'', ''Maintain focus''],
          breakNeeded = False, encouragement = False,
          voiceSettings = \<lparr> vs_pitch = MediumPitch, vs_pace = NormalPace, vs_emotion = ''neutral'' \<rparr> \<rparr>)"

text \<open>A call of one public operation of the engine, with the clock readings it makes.\<close>

datatype fusion_op =
    UpdateFacialEmotion SmoothedEmotionState timestamp timestamp
  | UpdateVoiceEmotion VoiceEmotionData timestamp timestamp
  | UpdateTextEmotion TextEmotionData timestamp timestamp
  | UpdateSessionDuration real timestamp
  | Reset timestamp

fun fusion_step :: "fusion_op \<Rightarrow> MultiModalEmotionState \<Rightarrow> MultiModalEmotionState" where
  "fusion_step (UpdateFacialEmotion f now now') s = updateFacialEmotion f now now' s"
| "fusion_step (UpdateVoiceEmotion v now now') s = updateVoiceEmotion v now now' s"
| "fusion_step (UpdateTextEmotion t now now') s = updateTextEmotion t now now' s"
| "fusion_step (UpdateSessionDuration seconds now') s = updateSessionDuration seconds now' s"
| "fusion_step (Reset now) s = reset now s"

definition run_fusion :: "fusion_op list \<Rightarrow> MultiModalEmotionState \<Rightarrow> MultiModalEmotionState" where
  "run_fusion ops s = fold fusion_step ops s"

section \<open>The temporal smoother\<close>

definition maxHistorySize :: nat where "maxHistorySize = 10"

text \<open>
  \<^verbatim>\<open>expressions.neutral\<close>. The parameter's type has the field; for an object without
  it the read is \<^verbatim>\<open>undefined\<close>, which has no counterpart here, and the statements
  below are about objects of the declared type only (\<open>well_typed\<close>).
\<close>

definition neutral_of :: "expressions \<Rightarrow> real" where
  "neutral_of ex = (case map_of ex ''neutral'' of None \<Rightarrow> 0 | Some v \<Rightarrow> v)"

definition expression_fields :: "string list" where
  "expression_fields =
     [''neutral'', ''happy'', ''sad'', ''angry'', ''fearful'', ''disgusted'', ''surprised'']"

definition well_typed :: "expressions \<Rightarrow> bool" where
  "well_typed ex =
     (distinct (map fst ex) \<and> list_all (\<lambda>k. k \<in> set (map fst ex)) expression_fields)"

text \<open>The chain of comparisons that maps the dominant raw category to a label.\<close>

definition mapped_emotion :: "string \<Rightarrow> string" where
  "mapped_emotion dominantEmotion =
     (if dominantEmotion = ''happy'' then ''happy''
      else if dominantEmotion = ''sad'' then ''tired''
      else if dominantEmotion = ''angry'' then ''stressed''
      else if dominantEmotion = ''fearful'' then ''stressed''
      else if dominantEmotion = ''surprised'' then ''focused''
      else ''neutral'')"

definition processFaceExpressions :: "expressions \<Rightarrow> timestamp \<Rightarrow> FacialEmotionData" where
  "processFaceExpressions ex now =
     (case fold max_step ex (''neutral'', neutral_of ex) of
        (dominantEmotion, maxConfidence) \<Rightarrow>
          \<lparr> fed_emotion = mapped_emotion dominantEmotion,
            fed_confidence = maxConfidence,
            fed_expressions = ex,
            fed_timestamp = now \<rparr>)"

text \<open>The loop over the window that fills \<^verbatim>\<open>emotionCounts\<close> and
  \<^verbatim>\<open>emotionConfidences\<close>.\<close>

definition count_step :: "FacialEmotionData \<Rightarrow> scores \<times> scores \<Rightarrow> scores \<times> scores" where
  "count_step d acc =
     (case acc of (emotionCounts, emotionConfidences) \<Rightarrow>
        (add_to (fed_emotion d) 1 emotionCounts,
         add_to (fed_emotion d) (fed_confidence d) emotionConfidences))"

definition getSmoothedEmotion :: "timestamp \<Rightarrow> FacialEmotionData list \<Rightarrow> SmoothedEmotionState" where
  "getSmoothedEmotion now window =
     (if length window = 0
      then \<lparr> ses_emotion = ''neutral'', ses_confidence = 0.5, ses_history = [],
             ses_lastUpdate = now \<rparr>
      else case fold count_step window ([], []) of
        (emotionCounts, emotionConfidences) \<Rightarrow>
          case fold max_step emotionCounts (''neutral'', 0) of
            (dominantEmotion, maxCount) \<Rightarrow>
              let avgConfidence =
                    get_own emotionConfidences dominantEmotion /
                    get_own emotionCounts dominantEmotion
              in \<lparr> ses_emotion = dominantEmotion,
                   ses_confidence = min avgConfidence 1,
                   ses_history = window,
                   ses_lastUpdate = now \<rparr>)"

text \<open>
  The detector, as far as the window is concerned: the window itself and the flag
  \<^verbatim>\<open>isRunning\<close>. The camera, the video element and the timer belong to the browser.
\<close>

record FacialEmotionDetector =
  det_emotionHistory :: "FacialEmotionData list"
  isRunning :: bool

definition new_detector :: FacialEmotionDetector where
  "new_detector = \<lparr> det_emotionHistory = [], isRunning = False \<rparr>"

text \<open>
  One firing of the interval callback of \<^verbatim>\<open>startDetection\<close>. The callback tests
  \<^verbatim>\<open>isRunning\<close>, awaits the classifier and then continues. \<open>detection_resume\<close> is
  the part after the \<^verbatim>\<open>await\<close>: the classifier's answer is \<open>None\<close> when no face
  was found or the detection threw (the exception is caught and logged). The second
  component of the result is the argument passed to \<^verbatim>\<open>onEmotionDetected\<close>, if it is
  called; \<open>now\<close> and \<open>now'\<close> are the two clock readings.
\<close>

definition detection_resume ::
  "expressions option \<Rightarrow> timestamp \<Rightarrow> timestamp \<Rightarrow> FacialEmotionDetector \<Rightarrow>
   FacialEmotionDetector \<times> SmoothedEmotionState option" where
  "detection_resume detections now now' d =
     (case detections of
        None \<Rightarrow> (d, None)
      | Some ex \<Rightarrow>
          let facialEmotion = processFaceExpressions ex now;
              h = push_shift maxHistorySize facialEmotion (det_emotionHistory d)
          in (d\<lparr> det_emotionHistory := h \<rparr>, Some (getSmoothedEmotion now' h)))"

definition detection_tick ::
  "expressions option \<Rightarrow> timestamp \<Rightarrow> timestamp \<Rightarrow> FacialEmotionDetector \<Rightarrow>
   FacialEmotionDetector \<times> SmoothedEmotionState option" where
  "detection_tick detections now now' d =
     (if \<not> isRunning d then (d, None) else detection_resume detections now now' d)"

text \<open>\<^verbatim>\<open>startDetection\<close> as far as the detector's own fields go (loading the models
  and opening the camera can fail, and then the flag is not set: no operation).\<close>

definition startDetection :: "FacialEmotionDetector \<Rightarrow> FacialEmotionDetector" where
  "startDetection d = d\<lparr> isRunning := True \<rparr>"

definition stopDetection :: "FacialEmotionDetector \<Rightarrow> FacialEmotionDetector" where
  "stopDetection d = d\<lparr> isRunning := False, det_emotionHistory := [] \<rparr>"

definition clearHistory :: "FacialEmotionDetector \<Rightarrow> FacialEmotionDetector" where
  "clearHistory d = d\<lparr> det_emotionHistory := [] \<rparr>"

definition getCurrentEmotion :: "timestamp \<Rightarrow> FacialEmotionDetector \<Rightarrow> SmoothedEmotionState" where
  "getCurrentEmotion now d = getSmoothedEmotion now (det_emotionHistory d)"

text \<open>The calls that reach the detector. \<open>Tick\<close> is a firing whose classifier answer
  arrives before anything else happens; \<open>Resume\<close> is the arrival of the answer of a
  firing that passed the test of \<^verbatim>\<open>isRunning\<close> earlier, with other calls in between.\<close>

datatype detector_op =
    StartDetection
  | Tick "expressions option" timestamp timestamp
  | Resume "expressions option" timestamp timestamp
  | StopDetection
  | ClearHistory

fun detector_step :: "detector_op \<Rightarrow> FacialEmotionDetector \<Rightarrow> FacialEmotionDetector" where
  "detector_step StartDetection d = startDetection d"
| "detector_step (Tick detections now now') d = fst (detection_tick detections now now' d)"
| "detector_step (Resume detections now now') d = fst (detection_resume detections now now' d)"
| "detector_step StopDetection d = stopDetection d"
| "detector_step ClearHistory d = clearHistory d"

definition run_detector :: "detector_op list \<Rightarrow> FacialEmotionDetector \<Rightarrow> FacialEmotionDetector" where
  "run_detector ops d = fold detector_step ops d"

section \<open>The state behind references\<close>

text \<open>
  The operations above pass the fusion state by value, which is what the engine does
  as long as nobody else holds a reference into it. \<^verbatim>\<open>getCurrentState\<close> hands the
  state out, so its effect is described on a store: the state is an object whose fields
  hold numbers and strings by value, and the three channel readings and the history
  array by reference.
\<close>

type_synonym addr = nat

record state_object =
  o_facialEmotion :: "addr option"
  o_voiceEmotion :: "addr option"
  o_textEmotion :: "addr option"
  o_sessionDuration :: real
  o_mergedEmotion :: string
  o_confidence :: real
  o_lastUpdate :: timestamp
  o_emotionHistory :: addr

datatype cell =
    StateObject state_object
  | FacialObject SmoothedEmotionState
  | VoiceObject VoiceEmotionData
  | TextObject TextEmotionData
  | HistoryArray "history_entry list"

record store =
  cells :: "addr \<Rightarrow> cell option"
  next_addr :: addr

definition empty_store :: store where
  "empty_store = \<lparr> cells = (\<lambda>a. None), next_addr = 0 \<rparr>"

definition alloc :: "cell \<Rightarrow> store \<Rightarrow> addr \<times> store" where
  "alloc c st =
     (next_addr st,
      st\<lparr> cells := (cells st)(next_addr st \<mapsto> c), next_addr := Suc (next_addr st) \<rparr>)"

text \<open>The field initialiser of \<^verbatim>\<open>currentState\<close>: a new empty array and a new object
  that refers to it. The result is the address kept in the private field.\<close>

definition new_engine :: "timestamp \<Rightarrow> store \<Rightarrow> addr \<times> store" where
  "new_engine now st =
     (case alloc (HistoryArray []) st of (h, st') \<Rightarrow>
        alloc (StateObject
                 \<lparr> o_facialEmotion = None, o_voiceEmotion = None, o_textEmotion = None,
                   o_sessionDuration = 0, o_mergedEmotion = ''neutral'', o_confidence = 0.5,
                   o_lastUpdate = now, o_emotionHistory = h \<rparr>) st')"

text \<open>\<^verbatim>\<open>return { ...this.currentState }\<close>: a new object with the same field values;
  \<open>currentState\<close> is the address held by the engine. (\<open>None\<close> only if that
  address does not hold a state object, which no engine produces.)\<close>

definition getCurrentState :: "addr \<Rightarrow> store \<Rightarrow> (addr \<times> store) option" where
  "getCurrentState currentState st =
     (case cells st currentState of
        Some (StateObject obj) \<Rightarrow> Some (alloc (StateObject obj) st)
      | _ \<Rightarrow> None)"

text \<open>The fusion state that an object denotes: its fields, read through the
  references.\<close>

definition facial_at :: "store \<Rightarrow> addr option \<Rightarrow> SmoothedEmotionState option" where
  "facial_at st r =
     (case r of None \<Rightarrow> None
      | Some a \<Rightarrow> (case cells st a of Some (FacialObject f) \<Rightarrow> Some f | _ \<Rightarrow> None))"

definition voice_at :: "store \<Rightarrow> addr option \<Rightarrow> VoiceEmotionData option" where
  "voice_at st r =
     (case r of None \<Rightarrow> None
      | Some a \<Rightarrow> (case cells st a of Some (VoiceObject v) \<Rightarrow> Some v | _ \<Rightarrow> None))"

definition text_at :: "store \<Rightarrow> addr option \<Rightarrow> TextEmotionData option" where
  "text_at st r =
     (case r of None \<Rightarrow> None
      | Some a \<Rightarrow> (case cells st a of Some (TextObject t) \<Rightarrow> Some t | _ \<Rightarrow> None))"

definition history_at :: "store \<Rightarrow> addr \<Rightarrow> history_entry list" where
  "history_at st a = (case cells st a of Some (HistoryArray h) \<Rightarrow> h | _ \<Rightarrow> [])"

definition state_at :: "store \<Rightarrow> addr \<Rightarrow> MultiModalEmotionState option" where
  "state_at st a =
     (case cells st a of
        Some (StateObject obj) \<Rightarrow>
          Some \<lparr> facialEmotion = facial_at st (o_facialEmotion obj),
                 voiceEmotion = voice_at st (o_voiceEmotion obj),
                 textEmotion = text_at st (o_textEmotion obj),
                 sessionDuration = o_sessionDuration obj,
                 mergedEmotion = o_mergedEmotion obj,
                 confidence = o_confidence obj,
                 lastUpdate = o_lastUpdate obj,
                 emotionHistory = history_at st (o_emotionHistory obj) \<rparr>
      | _ \<Rightarrow> None)"

text \<open>What a caller can do with the reference \<open>r\<close> it received: assign to fields of the
  object (\<^verbatim>\<open>r.mergedEmotion = ...\<close>, \<^verbatim>\<open>r.emotionHistory = ...\<close>; \<open>g\<close> is the
  change to the fields), or push onto the array the object refers to
  (\<^verbatim>\<open>r.emotionHistory.push(e)\<close>).\<close>

definition assign_fields :: "addr \<Rightarrow> (state_object \<Rightarrow> state_object) \<Rightarrow> store \<Rightarrow> store" where
  "assign_fields r g st =
     (case cells st r of
        Some (StateObject obj) \<Rightarrow> st\<lparr> cells := (cells st)(r \<mapsto> StateObject (g obj)) \<rparr>
      | _ \<Rightarrow> st)"

definition history_push :: "addr \<Rightarrow> history_entry \<Rightarrow> store \<Rightarrow> store" where
  "history_push r e st =
     (case cells st r of
        Some (StateObject obj) \<Rightarrow>
          (case cells st (o_emotionHistory obj) of
             Some (HistoryArray h) \<Rightarrow>
               st\<lparr> cells := (cells st)(o_emotionHistory obj \<mapsto> HistoryArray (h @ [e])) \<rparr>
           | _ \<Rightarrow> st)
      | _ \<Rightarrow> st)"

text \<open>The engine's object and everything it refers to has been allocated.\<close>

definition allocated :: "store \<Rightarrow> addr option \<Rightarrow> bool" where
  "allocated st r = (case r of None \<Rightarrow> True | Some a \<Rightarrow> a < next_addr st)"

definition wf_engine :: "store \<Rightarrow> addr \<Rightarrow> bool" where
  "wf_engine st currentState =
     (currentState < next_addr st \<and>
      (case cells st currentState of
         Some (StateObject obj) \<Rightarrow>
           allocated st (o_facialEmotion obj) \<and> allocated st (o_voiceEmotion obj) \<and>
           allocated st (o_textEmotion obj) \<and> o_emotionHistory obj < next_addr st
       | _ \<Rightarrow> False))"

section \<open>Notions used in the statements\<close>

text \<open>The entry \<open>(k, v)\<close> is the first one of \<open>es\<close> whose value is largest: every
  entry before it has a smaller value and no entry after it has a larger one.\<close>

definition first_maximal :: "(string \<times> real) list \<Rightarrow> string \<Rightarrow> real \<Rightarrow> bool" where
  "first_maximal es k v =
     (\<exists>pre post. es = pre @ (k, v) # post \<and>
        (\<forall>(k', v') \<in> set pre. v' < v) \<and> (\<forall>(k', v') \<in> set post. v' \<le> v))"

text \<open>The keys of a list in the order of their first occurrence, after the keys
  \<open>seen\<close>.\<close>

fun first_seen :: "string list \<Rightarrow> string list \<Rightarrow> string list" where
  "first_seen seen [] = seen"
| "first_seen seen (k # ks) = first_seen (if k \<in> set seen then seen else seen @ [k]) ks"

text \<open>The lookup from the classifier's categories to emotion labels, as a table;
  a category without a row is neutral.\<close>

definition raw_to_canonical :: "(string \<times> string) list" where
  "raw_to_canonical =
     [(''sad'', ''tired''), (''angry'', ''stressed''), (''fearful'', ''stressed''),
      (''surprised'', ''focused''), (''happy'', ''happy'')]"

definition canonical_label :: "string \<Rightarrow> string" where
  "canonical_label k = (case map_of raw_to_canonical k of Some l \<Rightarrow> l | None \<Rightarrow> ''neutral'')"

text \<open>The bias towards tired that a session duration brings: 0.10 beyond 2700
  seconds and a further 0.15 beyond 5400 seconds.\<close>

definition fatigue_bias :: "real \<Rightarrow> real" where
  "fatigue_bias duration =
     (if duration > 2700 then 0.10 else 0) + (if duration > 5400 then 0.15 else 0)"

text \<open>How often a label occurs in a window, and the mean of the confidences
  recorded with it.\<close>

definition occurrences :: "string \<Rightarrow> FacialEmotionData list \<Rightarrow> nat" where
  "occurrences l window = length (filter (\<lambda>d. fed_emotion d = l) window)"

definition mean_confidence :: "string \<Rightarrow> FacialEmotionData list \<Rightarrow> real" where
  "mean_confidence l window =
     sum_list (map fed_confidence (filter (\<lambda>d. fed_emotion d = l) window)) /
     real (occurrences l window)"

text \<open>
  The weighted merge in the words of its description. The channels that are present
  contribute their label with the weight 0.5 (facial), 0.3 (voice) or 0.2 (text). The
  total of a label is the sum of the weights of the channels that carry it, divided by
  the sum of the weights of all present channels; the total of tired is raised by the
  bias of the session duration, and nothing is normalised again after that. Labels are
  met in the order facial, voice, text, and tired comes last unless a channel carried
  it.
\<close>

definition present_channels :: "MultiModalEmotionState \<Rightarrow> (string \<times> real) list" where
  "present_channels s =
     (case facialEmotion s of None \<Rightarrow> [] | Some f \<Rightarrow> [(ses_emotion f, 0.5)]) @
     (case voiceEmotion s of None \<Rightarrow> [] | Some v \<Rightarrow> [(ved_emotion v, 0.3)]) @
     (case textEmotion s of None \<Rightarrow> [] | Some t \<Rightarrow> [(ted_emotion t, 0.2)])"

definition weight_sum :: "MultiModalEmotionState \<Rightarrow> real" where
  "weight_sum s = sum_list (map snd (present_channels s))"

definition normalized_total :: "MultiModalEmotionState \<Rightarrow> string \<Rightarrow> real" where
  "normalized_total s l =
     sum_list (map snd (filter (\<lambda>c. fst c = l) (present_channels s))) / weight_sum s"

definition biased_total :: "MultiModalEmotionState \<Rightarrow> string \<Rightarrow> real" where
  "biased_total s l =
     normalized_total s l + (if l = ''tired'' then fatigue_bias (sessionDuration s) else 0)"

definition encounter_order :: "MultiModalEmotionState \<Rightarrow> string list" where
  "encounter_order s = first_seen [] (map fst (present_channels s) @ [''tired''])"

text \<open>The \<open>n\<close> most recent entries of a log.\<close>

definition last_n :: "nat \<Rightarrow> 'a list \<Rightarrow> 'a list" where
  "last_n n xs = drop (length xs - n) xs"

text \<open>
  The readings that a sequence of calls hands to the detector, oldest first, since
  the window was last emptied: a firing on a running detector and the late arrival of
  an answer each contribute the reading made from the classification, and
  \<^verbatim>\<open>stopDetection\<close> and \<^verbatim>\<open>clearHistory\<close> start the log afresh.
\<close>

definition ingested_reading :: "detector_op \<Rightarrow> FacialEmotionDetector \<Rightarrow> FacialEmotionData option" where
  "ingested_reading op d =
     (case op of
        Tick (Some ex) now now' \<Rightarrow>
          if isRunning d then Some (processFaceExpressions ex now) else None
      | Resume (Some ex) now now' \<Rightarrow> Some (processFaceExpressions ex now)
      | _ \<Rightarrow> None)"

fun reading_log ::
  "detector_op list \<Rightarrow> FacialEmotionDetector \<Rightarrow> FacialEmotionData list \<Rightarrow>
   FacialEmotionData list" where
  "reading_log [] d lg = lg"
| "reading_log (op # ops) d lg =
     reading_log ops (detector_step op d)
       (case op of
          StopDetection \<Rightarrow> []
        | ClearHistory \<Rightarrow> []
        | _ \<Rightarrow> (case ingested_reading op d of None \<Rightarrow> lg | Some r \<Rightarrow> lg @ [r]))"

text \<open>
  The merges that a sequence of calls makes, oldest first, since the last
  \<^verbatim>\<open>reset\<close>: every channel update merges, a duration update merges when a channel is
  present, and each merge contributes the entry made of the merged emotion it computed,
  the source \<open>Merged\<close> and the clock reading of the recompute.
\<close>

definition merge_clock :: "fusion_op \<Rightarrow> MultiModalEmotionState \<Rightarrow> timestamp option" where
  "merge_clock op s =
     (case op of
        UpdateFacialEmotion f now now' \<Rightarrow> Some now'
      | UpdateVoiceEmotion v now now' \<Rightarrow> Some now'
      | UpdateTextEmotion t now now' \<Rightarrow> Some now'
      | UpdateSessionDuration seconds now' \<Rightarrow>
          if present_channels s = [] then None else Some now'
      | Reset now \<Rightarrow> None)"

definition appended_entry :: "fusion_op \<Rightarrow> MultiModalEmotionState \<Rightarrow> history_entry option" where
  "appended_entry op s =
     (case merge_clock op s of
        None \<Rightarrow> None
      | Some now' \<Rightarrow>
          Some \<lparr> he_emotion = mergedEmotion (fusion_step op s), he_source = Merged,
                 he_timestamp = now' \<rparr>)"

fun merge_log ::
  "fusion_op list \<Rightarrow> MultiModalEmotionState \<Rightarrow> history_entry list \<Rightarrow> history_entry list" where
  "merge_log [] s lg = lg"
| "merge_log (op # ops) s lg =
     merge_log ops (fusion_step op s)
       (case op of
          Reset now \<Rightarrow> []
        | _ \<Rightarrow> (case appended_entry op s of None \<Rightarrow> lg | Some e \<Rightarrow> lg @ [e]))"

text \<open>The vocabulary of emotion labels.\<close>

definition emotion_labels :: "string list" where
  "emotion_labels =
     [''happy'', ''neutral'', ''sad'', ''stressed'', ''tired'', ''focused'', ''anxious'',
      ''confused'', ''calm'', ''surprised'']"

section \<open>Concrete inputs\<close>

text \<open>A newly created engine, and the same store after one call of
  \<^verbatim>\<open>getCurrentState\<close> with the reference that the call returned.\<close>

definition demo_engine :: "addr \<times> store" where
  "demo_engine = new_engine 0 empty_store"

definition demo_copy :: "addr \<times> store" where
  "demo_copy =
     (case getCurrentState (fst demo_engine) (snd demo_engine) of
        Some p \<Rightarrow> p | None \<Rightarrow> demo_engine)"

text \<open>A classification in which two categories tie for the largest probability.\<close>

definition demo_expressions :: expressions where
  "demo_expressions =
     [(''neutral'', 0.1), (''happy'', 0.2), (''sad'', 0.6), (''angry'', 0.6),
      (''fearful'', 0), (''disgusted'', 0.05), (''surprised'', 0.05)]"

text \<open>
  Eleven firings with the clock readings 1 to 11 on a detector that has just been
  started, and fifty-one merges with the clock readings 0 to 50 on a new engine: a text
  reading followed by fifty duration updates.
\<close>

definition demo_clock :: "timestamp list" where
  "demo_clock = [1, 2, 3, 4, 5, 6, 7, 8, 9, 10, 11]"

definition demo_detector_ops :: "detector_op list" where
  "demo_detector_ops =
     StartDetection # map (\<lambda>t. Tick (Some demo_expressions) t (t + 1)) demo_clock"

definition demo_text :: TextEmotionData where
  "demo_text = \<lparr> ted_emotion = ''happy'', ted_confidence = 0.9, ted_timestamp = 0 \<rparr>"

definition demo_merge :: "timestamp \<Rightarrow> history_entry" where
  "demo_merge t = \<lparr> he_emotion = ''happy'', he_source = Merged, he_timestamp = t \<rparr>"

definition demo_fusion_ops :: "fusion_op list" where
  "demo_fusion_ops =
     UpdateTextEmotion demo_text 0 0 #
     map (\<lambda>n. UpdateSessionDuration (real n) (int n)) [1..<51]"

definition text_only :: "MultiModalEmotionState \<Rightarrow> bool" where
  "text_only s =
     (facialEmotion s = None \<and> voiceEmotion s = None \<and> textEmotion s = Some demo_text)"

text \<open>A window with a majority, and three states with one channel each.\<close>

definition demo_window :: "FacialEmotionData list" where
  "demo_window =
     [\<lparr> fed_emotion = ''happy'', fed_confidence = 0.8, fed_expressions = [], fed_timestamp = 1 \<rparr>,
      \<lparr> fed_emotion = ''tired'', fed_confidence = 0.9, fed_expressions = [], fed_timestamp = 2 \<rparr>,
      \<lparr> fed_emotion = ''happy'', fed_confidence = 0.6, fed_expressions = [], fed_timestamp = 3 \<rparr>]"

definition demo_facial_only :: MultiModalEmotionState where
  "demo_facial_only = (initial_state 0)
     \<lparr> facialEmotion := Some \<lparr> ses_emotion = ''focused'', ses_confidence = 0.4,
                               ses_history = [], ses_lastUpdate = 1 \<rparr> \<rparr>"

definition demo_voice_only :: MultiModalEmotionState where
  "demo_voice_only = (initial_state 0)
     \<lparr> voiceEmotion := Some \<lparr> ved_emotion = ''tired'', ved_confidence = 0.3,
                              ved_tone = ''flat'', ved_timestamp = 1 \<rparr>,
       sessionDuration := 6000 \<rparr>"

definition demo_text_only :: MultiModalEmotionState where
  "demo_text_only = (initial_state 0)
     \<lparr> textEmotion := Some \<lparr> ted_emotion = ''happy'', ted_confidence = 0.9,
                             ted_timestamp = 1 \<rparr>,
       sessionDuration := 3000 \<rparr>"

text \<open>A state in which the bias makes tired catch up with the facial label.\<close>

definition demo_two_channels :: MultiModalEmotionState where
  "demo_two_channels = (initial_state 0)
     \<lparr> facialEmotion := Some \<lparr> ses_emotion = ''neutral'', ses_confidence = 0.9,
                               ses_history = [], ses_lastUpdate = 1 \<rparr>,
       voiceEmotion := Some \<lparr> ved_emotion = ''tired'', ved_confidence = 0.3,
                              ved_tone = ''flat'', ved_timestamp = 1 \<rparr>,
       sessionDuration := 6000 \<rparr>"

section \<open>The loops shared by both services\<close>

lemma max_step_pair:
  "max_step (k, v) (d, m) = (if v > m then (k, v) else (d, m))"
  by (simp add: max_step_def)

lemma fold_max_step_cases:
  "fold max_step es (k0, v0) = (k, v) \<Longrightarrow>
     ((k, v) = (k0, v0) \<and> (\<forall>(k', v') \<in> set es. v' \<le> v0)) \<or>
     (v0 < v \<and> first_maximal es k v)"
proof (induction es arbitrary: k0 v0)
  case Nil
  then show ?case by simp
next
  case (Cons e es)
  obtain k1 v1 where e: "e = (k1, v1)" by (cases e)
  show ?case
  proof (cases "v1 > v0")
    case True
    with Cons.prems e have "fold max_step es (k1, v1) = (k, v)"
      by (simp add: max_step_pair)
    from Cons.IH [OF this] show ?thesis
    proof
      assume a: "(k, v) = (k1, v1) \<and> (\<forall>(k', v') \<in> set es. v' \<le> v1)"
      then have "e # es = [] @ (k, v) # es" using e by simp
      with a True show ?thesis
        unfolding first_maximal_def by (intro disjI2 conjI exI [of _ "[]"] exI [of _ es]) auto
    next
      assume a: "v1 < v \<and> first_maximal es k v"
      then obtain pre post where p: "es = pre @ (k, v) # post"
        "\<forall>(k', v') \<in> set pre. v' < v" "\<forall>(k', v') \<in> set post. v' \<le> v"
        unfolding first_maximal_def by blast
      have "e # es = (e # pre) @ (k, v) # post" using p(1) by simp
      moreover have "\<forall>(k', v') \<in> set (e # pre). v' < v" using p(2) a e by auto
      ultimately have "first_maximal (e # es) k v"
        unfolding first_maximal_def using p(3) by blast
      with a True show ?thesis by auto
    qed
  next
    case False
    with Cons.prems e have "fold max_step es (k0, v0) = (k, v)"
      by (simp add: max_step_pair)
    from Cons.IH [OF this] show ?thesis
    proof
      assume a: "(k, v) = (k0, v0) \<and> (\<forall>(k', v') \<in> set es. v' \<le> v0)"
      with False e show ?thesis by auto
    next
      assume a: "v0 < v \<and> first_maximal es k v"
      then obtain pre post where p: "es = pre @ (k, v) # post"
        "\<forall>(k', v') \<in> set pre. v' < v" "\<forall>(k', v') \<in> set post. v' \<le> v"
        unfolding first_maximal_def by blast
      have "e # es = (e # pre) @ (k, v) # post" using p(1) by simp
      moreover have "\<forall>(k', v') \<in> set (e # pre). v' < v" using p(2) a e False by auto
      ultimately have "first_maximal (e # es) k v"
        unfolding first_maximal_def using p(3) by blast
      with a show ?thesis by auto
    qed
  qed
qed

lemma first_maximalD:
  assumes "first_maximal es k v"
  shows "(k, v) \<in> set es" and "\<And>k' v'. (k', v') \<in> set es \<Longrightarrow> v' \<le> v"
proof -
  from assms obtain pre post where p: "es = pre @ (k, v) # post"
    "\<forall>(k', v') \<in> set pre. v' < v" "\<forall>(k', v') \<in> set post. v' \<le> v"
    unfolding first_maximal_def by blast
  show "(k, v) \<in> set es" using p(1) by simp
  fix k' v' assume "(k', v') \<in> set es"
  with p show "v' \<le> v" by fastforce
qed

lemma map_of_add_to:
  "map_of (add_to k x r) = (map_of r)(k \<mapsto> get_own r k + x)"
  by (auto simp: add_to_def put_def get_or0_def get_own_def update_conv' split: option.splits)

lemma keys_add_to:
  "map fst (add_to k x r) = (if k \<in> set (map fst r) then map fst r else map fst r @ [k])"
  by (simp add: add_to_def put_def update_keys)

lemma distinct_add_to:
  "distinct (map fst r) \<Longrightarrow> distinct (map fst (add_to k x r))"
  by (simp add: add_to_def put_def distinct_update)

lemma fold_add_to_keys:
  "map fst (fold (\<lambda>d. add_to (key d) (val d)) ds r) = first_seen (map fst r) (map key ds)"
  by (induction ds arbitrary: r) (simp_all add: keys_add_to)

lemma fold_add_to_distinct:
  "distinct (map fst r) \<Longrightarrow> distinct (map fst (fold (\<lambda>d. add_to (key d) (val d)) ds r))"
  by (induction ds arbitrary: r) (simp_all add: distinct_add_to)

lemma fold_add_to_map_of:
  "map_of (fold (\<lambda>d. add_to (key d) (val d)) ds r) l =
     (if l \<in> key ` set ds \<or> l \<in> fst ` set r
      then Some (get_own r l + sum_list (map val (filter (\<lambda>d. key d = l) ds)))
      else None)"
proof (induction ds arbitrary: r)
  case Nil
  show ?case
    by (auto simp: get_own_def map_of_eq_None_iff split: option.splits)
next
  case (Cons d ds)
  have dom: "fst ` set (add_to (key d) (val d) r) = insert (key d) (fst ` set r)"
    using keys_add_to [of "key d" "val d" r]
    by (metis (no_types, lifting) dom_map_of_conv_image_fst map_of_add_to dom_fun_upd option.distinct(1))
  show ?case
    by (auto simp: Cons.IH dom get_own_def map_of_add_to)
qed

lemma get_or0_eq: "get_or0 r k = get_own r k"
  by (simp add: get_or0_def get_own_def split: option.splits)

section \<open>Properties of the temporal smoother\<close>

lemma mapped_emotion_table: "mapped_emotion k = canonical_label k"
  by (simp add: mapped_emotion_def canonical_label_def raw_to_canonical_def)

lemma well_typed_neutral:
  assumes "well_typed ex"
  shows "(''neutral'', neutral_of ex) \<in> set ex"
proof -
  from assms have "''neutral'' \<in> fst ` set ex"
    by (simp add: well_typed_def expression_fields_def)
  then obtain v where v: "(''neutral'', v) \<in> set ex" by force
  moreover from assms have "distinct (map fst ex)" by (simp add: well_typed_def)
  ultimately have "map_of ex ''neutral'' = Some v" by simp
  then show ?thesis using v by (simp add: neutral_of_def)
qed

text \<open>
  Claim C6. For a classification of the declared type, the reading that
  \<^verbatim>\<open>processFaceExpressions\<close> builds records a category \<open>k\<close> with its probability
  \<open>v\<close>, where \<open>v\<close> is the largest probability of all. If some category has a larger
  probability than the neutral category, \<open>k\<close> is the first category in iteration order
  that has the largest probability; otherwise \<open>k\<close> is neutral. The label of the reading
  is the row of \<open>k\<close> in the table (sad to tired, angry and fearful to stressed,
  surprised to focused, happy to happy, anything else to neutral), and its confidence
  is \<open>v\<close>.
\<close>

theorem raw_mapping:
  assumes "well_typed ex"
  shows "\<exists>k v. processFaceExpressions ex now =
            \<lparr> fed_emotion = canonical_label k, fed_confidence = v,
              fed_expressions = ex, fed_timestamp = now \<rparr>
          \<and> (k, v) \<in> set ex \<and> (\<forall>(k', v') \<in> set ex. v' \<le> v)
          \<and> (''neutral'', neutral_of ex) \<in> set ex
          \<and> (if \<exists>(k', v') \<in> set ex. neutral_of ex < v'
              then first_maximal ex k v else k = ''neutral'')"
proof -
  have n: "(''neutral'', neutral_of ex) \<in> set ex" by (rule well_typed_neutral [OF assms])
  obtain k v where kv: "fold max_step ex (''neutral'', neutral_of ex) = (k, v)"
    by (cases "fold max_step ex (''neutral'', neutral_of ex)")
  have p: "processFaceExpressions ex now =
            \<lparr> fed_emotion = canonical_label k, fed_confidence = v,
              fed_expressions = ex, fed_timestamp = now \<rparr>"
    by (simp add: processFaceExpressions_def kv mapped_emotion_table)
  from fold_max_step_cases [OF kv] show ?thesis
  proof
    assume a: "(k, v) = (''neutral'', neutral_of ex) \<and> (\<forall>(k', v') \<in> set ex. v' \<le> neutral_of ex)"
    then have "\<not> (\<exists>(k', v') \<in> set ex. neutral_of ex < v')" by fastforce
    with a n p show ?thesis by auto
  next
    assume a: "neutral_of ex < v \<and> first_maximal ex k v"
    then have m: "(k, v) \<in> set ex" "\<forall>(k', v') \<in> set ex. v' \<le> v"
      using first_maximalD [of ex k v] by auto
    with a have "\<exists>(k', v') \<in> set ex. neutral_of ex < v'" by blast
    with a m n p show ?thesis by auto
  qed
qed

theorem raw_mapping_witness:
  "well_typed demo_expressions
   \<and> (\<exists>k v. processFaceExpressions demo_expressions 4 =
            \<lparr> fed_emotion = canonical_label k, fed_confidence = v,
              fed_expressions = demo_expressions, fed_timestamp = 4 \<rparr>
          \<and> (k, v) \<in> set demo_expressions \<and> (\<forall>(k', v') \<in> set demo_expressions. v' \<le> v)
          \<and> (''neutral'', neutral_of demo_expressions) \<in> set demo_expressions
          \<and> (if \<exists>(k', v') \<in> set demo_expressions. neutral_of demo_expressions < v'
              then first_maximal demo_expressions k v else k = ''neutral''))
   \<and> processFaceExpressions demo_expressions 4 =
        \<lparr> fed_emotion = ''tired'', fed_confidence = 0.6,
          fed_expressions = demo_expressions, fed_timestamp = 4 \<rparr>"
proof -
  have wt: "well_typed demo_expressions"
    by (simp add: well_typed_def demo_expressions_def expression_fields_def)
  have ev: "processFaceExpressions demo_expressions 4 =
        \<lparr> fed_emotion = ''tired'', fed_confidence = 0.6,
          fed_expressions = demo_expressions, fed_timestamp = 4 \<rparr>"
    by (simp add: processFaceExpressions_def demo_expressions_def neutral_of_def max_step_pair
        mapped_emotion_def)
  from raw_mapping [OF wt, of 4] wt ev show ?thesis by blast
qed

lemma fold_count_step:
  "fold count_step window (c, f) =
     (fold (\<lambda>d. add_to (fed_emotion d) 1) window c,
      fold (\<lambda>d. add_to (fed_emotion d) (fed_confidence d)) window f)"
  by (induction window arbitrary: c f) (simp_all add: count_step_def)

lemma sum_list_ones: "sum_list (map (\<lambda>d. 1::real) xs) = real (length xs)"
  by (induction xs) simp_all

lemma sum_list_le_length:
  "\<forall>x \<in> set xs. f x \<le> (1::real) \<Longrightarrow> sum_list (map f xs) \<le> real (length xs)"
  by (induction xs) auto

lemma counts_map_of:
  "map_of (fold (\<lambda>d. add_to (fed_emotion d) 1) window []) l =
     (if l \<in> fed_emotion ` set window then Some (real (occurrences l window)) else None)"
  by (simp add: fold_add_to_map_of get_own_def sum_list_ones occurrences_def)

lemma confidences_map_of:
  "map_of (fold (\<lambda>d. add_to (fed_emotion d) (fed_confidence d)) window []) l =
     (if l \<in> fed_emotion ` set window
      then Some (sum_list (map fed_confidence (filter (\<lambda>d. fed_emotion d = l) window)))
      else None)"
  by (simp add: fold_add_to_map_of get_own_def)

lemma counted_key_present:
  assumes "window \<noteq> []"
    and "fold max_step (fold (\<lambda>d. add_to (fed_emotion d) 1) window []) (''neutral'', 0) = (k, v)"
  shows "k \<in> fed_emotion ` set window \<and> v = real (occurrences k window)
         \<and> (\<forall>l \<in> fed_emotion ` set window. occurrences l window \<le> occurrences k window)"
proof -
  let ?counts = "fold (\<lambda>d. add_to (fed_emotion d) 1) window []"
  have dist: "distinct (map fst ?counts)" by (rule fold_add_to_distinct) simp
  have mem: "(l, real (occurrences l window)) \<in> set ?counts" if "l \<in> fed_emotion ` set window" for l
    using that counts_map_of [of window l] by (simp add: map_of_SomeD)
  from assms(1) obtain d where d: "d \<in> set window" by (cases window) auto
  then have pos: "0 < occurrences (fed_emotion d) window"
    by (auto simp: occurrences_def filter_empty_conv)
  from fold_max_step_cases [OF assms(2)] have fm: "first_maximal ?counts k v"
  proof
    assume "(k, v) = (''neutral'', 0) \<and> (\<forall>(k', v') \<in> set ?counts. v' \<le> 0)"
    with mem [of "fed_emotion d"] d pos show ?thesis by fastforce
  qed simp
  then have kv: "(k, v) \<in> set ?counts" and mx: "\<And>k' v'. (k', v') \<in> set ?counts \<Longrightarrow> v' \<le> v"
    using first_maximalD [of ?counts k v] by auto
  from kv dist have "map_of ?counts k = Some v" by simp
  then have k: "k \<in> fed_emotion ` set window" "v = real (occurrences k window)"
    by (auto simp: counts_map_of split: if_splits)
  have "occurrences l window \<le> occurrences k window" if "l \<in> fed_emotion ` set window" for l
    using mx [OF mem [OF that]] k(2) by simp
  with k show ?thesis by blast
qed

text \<open>
  Claim C4. For a window that is not empty, whose labels are plain keys and whose
  confidences lie between 0 and 1: if the label \<open>l\<close> occurs in the window and occurs
  more often than every other label of the window, then the smoothed state has the
  label \<open>l\<close> and, as its confidence, the arithmetic mean of the confidences recorded
  with \<open>l\<close>.
\<close>

theorem majority_vote:
  assumes "window \<noteq> []"
    and "\<forall>d \<in> set window.
           plain_key (fed_emotion d) \<and> 0 \<le> fed_confidence d \<and> fed_confidence d \<le> 1"
    and "l \<in> fed_emotion ` set window"
    and "\<forall>d \<in> set window.
           fed_emotion d \<noteq> l \<longrightarrow> occurrences (fed_emotion d) window < occurrences l window"
  shows "getSmoothedEmotion now window =
           \<lparr> ses_emotion = l, ses_confidence = mean_confidence l window,
             ses_history = window, ses_lastUpdate = now \<rparr>"
proof -
  let ?counts = "fold (\<lambda>d. add_to (fed_emotion d) 1) window []"
  let ?confs = "fold (\<lambda>d. add_to (fed_emotion d) (fed_confidence d)) window []"
  obtain k v where kv: "fold max_step ?counts (''neutral'', 0) = (k, v)"
    by (cases "fold max_step ?counts (''neutral'', 0)")
  from counted_key_present [OF assms(1) kv]
  have k: "k \<in> fed_emotion ` set window" "occurrences l window \<le> occurrences k window"
    using assms(3) by auto
  have kl: "k = l"
  proof (rule ccontr)
    assume "k \<noteq> l"
    with k(1) assms(4) have "occurrences k window < occurrences l window" by auto
    with k(2) show False by simp
  qed
  have cnt: "get_own ?counts l = real (occurrences l window)"
    using assms(3) by (simp add: get_own_def counts_map_of)
  have cnf: "get_own ?confs l =
      sum_list (map fed_confidence (filter (\<lambda>d. fed_emotion d = l) window))"
    using assms(3) by (simp add: get_own_def confidences_map_of)
  have pos: "0 < occurrences l window"
    using assms(3) by (auto simp: occurrences_def filter_empty_conv)
  have "sum_list (map fed_confidence (filter (\<lambda>d. fed_emotion d = l) window))
          \<le> real (length (filter (\<lambda>d. fed_emotion d = l) window))"
    by (rule sum_list_le_length) (use assms(2) in auto)
  then have le1: "mean_confidence l window \<le> 1"
    using pos by (simp add: mean_confidence_def occurrences_def divide_le_eq)
  have avg: "get_own ?confs l / get_own ?counts l = mean_confidence l window"
    by (simp add: cnt cnf mean_confidence_def)
  show ?thesis
    using assms(1) le1
    by (simp add: getSmoothedEmotion_def fold_count_step kv kl avg)
qed

theorem majority_vote_witness:
  "demo_window \<noteq> []
   \<and> list_all (\<lambda>d. plain_key (fed_emotion d) \<and> 0 \<le> fed_confidence d \<and> fed_confidence d \<le> 1)
        demo_window
   \<and> ''happy'' \<in> fed_emotion ` set demo_window
   \<and> list_all (\<lambda>d. fed_emotion d \<noteq> ''happy'' \<longrightarrow>
         occurrences (fed_emotion d) demo_window < occurrences ''happy'' demo_window)
        demo_window
   \<and> getSmoothedEmotion 9 demo_window =
        \<lparr> ses_emotion = ''happy'', ses_confidence = 0.7,
          ses_history = demo_window, ses_lastUpdate = 9 \<rparr>"
proof -
  have a: "demo_window \<noteq> []" by (simp add: demo_window_def)
  have b: "\<forall>d \<in> set demo_window.
         plain_key (fed_emotion d) \<and> 0 \<le> fed_confidence d \<and> fed_confidence d \<le> 1"
    by (simp add: demo_window_def plain_key_def object_prototype_keys_def digits_only_def)
  have c: "''happy'' \<in> fed_emotion ` set demo_window" by (simp add: demo_window_def)
  have d: "\<forall>d \<in> set demo_window. fed_emotion d \<noteq> ''happy'' \<longrightarrow>
         occurrences (fed_emotion d) demo_window < occurrences ''happy'' demo_window"
    by (simp add: demo_window_def occurrences_def)
  have m: "mean_confidence ''happy'' demo_window = 0.7"
    by (simp add: mean_confidence_def occurrences_def demo_window_def)
  from majority_vote [OF a b c d, of 9] a b c d show ?thesis
    by (simp add: m list_all_iff)
qed

section \<open>Properties of the weighted merge\<close>

lemma emotionScores_single:
  assumes "collect_emotions s = [(l, w)]" "w \<noteq> 0"
  shows "emotionScores s =
     (if l = ''tired'' then [(''tired'', 1 + fatigue_bias (sessionDuration s))]
      else [(l, 1), (''tired'', fatigue_bias (sessionDuration s))])"
  using assms
  by (simp add: emotionScores_def accumulate_def accumulate_step_def add_to_def put_def
      get_or0_def get_own_def normalize_def apply_duration_def fatigue_bias_def Let_def)

lemma recompute_single:
  assumes "collect_emotions s = [(l, w)]" "w \<noteq> 0"
  shows "mergedEmotion (recomputeMergedEmotion now s) = l \<and>
         confidence (recomputeMergedEmotion now s) = 1"
proof -
  have d: "dominant (emotionScores s) =
      (l, if l = ''tired'' then 1 + fatigue_bias (sessionDuration s) else 1)"
    by (simp add: emotionScores_single [OF assms] dominant_def max_step_pair fatigue_bias_def)
  show ?thesis
    using assms(1) by (simp add: recomputeMergedEmotion_def d fatigue_bias_def)
qed

text \<open>
  Claim C2. When exactly one of the three channels is present (and its label is a plain
  key), the recompute makes that channel's label the merged emotion and sets the
  confidence to 1, whatever the session duration is.
\<close>

theorem single_channel_fusion:
  "(facialEmotion s = Some f \<and> voiceEmotion s = None \<and> textEmotion s = None
      \<and> plain_key (ses_emotion f) \<longrightarrow>
      mergedEmotion (recomputeMergedEmotion now s) = ses_emotion f \<and>
      confidence (recomputeMergedEmotion now s) = 1)
   \<and> (facialEmotion s = None \<and> voiceEmotion s = Some v \<and> textEmotion s = None
      \<and> plain_key (ved_emotion v) \<longrightarrow>
      mergedEmotion (recomputeMergedEmotion now s) = ved_emotion v \<and>
      confidence (recomputeMergedEmotion now s) = 1)
   \<and> (facialEmotion s = None \<and> voiceEmotion s = None \<and> textEmotion s = Some t
      \<and> plain_key (ted_emotion t) \<longrightarrow>
      mergedEmotion (recomputeMergedEmotion now s) = ted_emotion t \<and>
      confidence (recomputeMergedEmotion now s) = 1)"
proof -
  have a: "mergedEmotion (recomputeMergedEmotion now s) = ses_emotion f \<and>
      confidence (recomputeMergedEmotion now s) = 1"
    if "facialEmotion s = Some f" "voiceEmotion s = None" "textEmotion s = None"
    by (rule recompute_single [where w = facial_weight])
       (simp_all add: that collect_emotions_def facial_weight_def)
  have b: "mergedEmotion (recomputeMergedEmotion now s) = ved_emotion v \<and>
      confidence (recomputeMergedEmotion now s) = 1"
    if "facialEmotion s = None" "voiceEmotion s = Some v" "textEmotion s = None"
    by (rule recompute_single [where w = voice_weight])
       (simp_all add: that collect_emotions_def voice_weight_def)
  have c: "mergedEmotion (recomputeMergedEmotion now s) = ted_emotion t \<and>
      confidence (recomputeMergedEmotion now s) = 1"
    if "facialEmotion s = None" "voiceEmotion s = None" "textEmotion s = Some t"
    by (rule recompute_single [where w = text_weight])
       (simp_all add: that collect_emotions_def text_weight_def)
  from a b c show ?thesis by blast
qed

theorem single_channel_fusion_witness:
  "facialEmotion demo_facial_only \<noteq> None \<and> voiceEmotion demo_facial_only = None
   \<and> textEmotion demo_facial_only = None \<and> plain_key ''focused''
   \<and> mergedEmotion (recomputeMergedEmotion 5 demo_facial_only) = ''focused''
   \<and> confidence (recomputeMergedEmotion 5 demo_facial_only) = 1
   \<and> facialEmotion demo_voice_only = None \<and> voiceEmotion demo_voice_only \<noteq> None
   \<and> textEmotion demo_voice_only = None \<and> plain_key ''tired''
   \<and> mergedEmotion (recomputeMergedEmotion 5 demo_voice_only) = ''tired''
   \<and> confidence (recomputeMergedEmotion 5 demo_voice_only) = 1
   \<and> facialEmotion demo_text_only = None \<and> voiceEmotion demo_text_only = None
   \<and> textEmotion demo_text_only \<noteq> None \<and> plain_key ''happy''
   \<and> mergedEmotion (recomputeMergedEmotion 5 demo_text_only) = ''happy''
   \<and> confidence (recomputeMergedEmotion 5 demo_text_only) = 1"
  using
    single_channel_fusion [of demo_facial_only
      "\<lparr> ses_emotion = ''focused'', ses_confidence = 0.4, ses_history = [],
         ses_lastUpdate = 1 \<rparr>" 5]
    single_channel_fusion [of demo_voice_only _ 5
      "\<lparr> ved_emotion = ''tired'', ved_confidence = 0.3, ved_tone = ''flat'',
         ved_timestamp = 1 \<rparr>"]
    single_channel_fusion [of demo_text_only _ 5 _
      "\<lparr> ted_emotion = ''happy'', ted_confidence = 0.9, ted_timestamp = 1 \<rparr>"]
  by (simp add: demo_facial_only_def demo_voice_only_def demo_text_only_def initial_state_def
      plain_key_def object_prototype_keys_def digits_only_def)

lemma collect_emotions_present: "collect_emotions s = present_channels s"
  by (simp add: collect_emotions_def present_channels_def facial_weight_def voice_weight_def
      text_weight_def split: option.splits)

lemma present_channels_pos: "c \<in> set (present_channels s) \<Longrightarrow> 0 < snd c"
  by (auto simp: present_channels_def split: option.splits)

lemma sum_list_pos_real:
  "xs \<noteq> [] \<Longrightarrow> \<forall>x \<in> set xs. (0::real) < x \<Longrightarrow> 0 < sum_list xs"
  by (induction xs) (auto simp: add_pos_nonneg sum_list_nonneg less_imp_le)

lemma fold_accumulate_step:
  "fold accumulate_step ems (sc, t) =
     (fold (\<lambda>d. add_to (fst d) (snd d)) ems sc, t + sum_list (map snd ems))"
  by (induction ems arbitrary: sc t) (simp_all add: accumulate_step_def split: prod.splits)

lemma normalize_keys: "map fst (normalize t sc) = map fst sc"
  by (induction sc) (auto simp: normalize_def)

lemma normalize_map_of: "map_of (normalize t sc) l = map_option (\<lambda>v. v / t) (map_of sc l)"
  by (induction sc) (auto simp: normalize_def)

lemma map_of_put: "map_of (put k v r) = (map_of r)(k \<mapsto> v)"
  by (simp add: put_def update_conv')

lemma keys_put:
  "map fst (put k v r) = (if k \<in> set (map fst r) then map fst r else map fst r @ [k])"
  by (simp add: put_def update_keys)

lemma get_own_put: "get_own (put k v r) k = v"
  by (simp add: get_own_def map_of_put)

lemma tired_key_present: "map_of (put ''tired'' v sc) ''tired'' = Some v"
  by (simp add: map_of_put)

lemma apply_duration_keys:
  "map fst (apply_duration d sc) = first_seen (map fst sc) [''tired'']"
  by (simp add: apply_duration_def Let_def keys_put)

lemma apply_duration_map_of:
  "map_of (apply_duration d sc) =
     (map_of sc)(''tired'' \<mapsto> get_own sc ''tired'' + fatigue_bias d)"
  by (simp add: apply_duration_def Let_def map_of_put get_own_put get_or0_eq fatigue_bias_def
      add.commute)

lemma first_seen_append:
  "first_seen seen (xs @ ys) = first_seen (first_seen seen xs) ys"
  by (induction xs arbitrary: seen) simp_all

lemma first_seen_set: "set (first_seen seen ks) = set seen \<union> set ks"
  by (induction ks arbitrary: seen) auto

lemma first_seen_distinct: "distinct seen \<Longrightarrow> distinct (first_seen seen ks)"
  by (induction ks arbitrary: seen) simp_all

lemma alist_eqI:
  "distinct (map fst r) \<Longrightarrow> map fst r = ks \<Longrightarrow> \<forall>k \<in> set ks. map_of r k = Some (f k) \<Longrightarrow>
   r = map (\<lambda>k. (k, f k)) ks"
proof (induction r arbitrary: ks)
  case Nil
  then show ?case by simp
next
  case (Cons p r)
  obtain k v where p: "p = (k, v)" by (cases p)
  from Cons.prems(2) p obtain ks' where ks: "ks = k # ks'" "map fst r = ks'" by auto
  from Cons.prems(1) p ks have nk: "k \<notin> set ks'" and dr: "distinct (map fst r)" by auto
  have v: "v = f k" using Cons.prems(3) p ks by simp
  have "\<forall>k' \<in> set ks'. map_of r k' = Some (f k')"
  proof
    fix k' assume k': "k' \<in> set ks'"
    with nk have "k' \<noteq> k" by auto
    with Cons.prems(3) p ks k' show "map_of r k' = Some (f k')" by auto
  qed
  from Cons.IH [OF dr ks(2) this] p v ks show ?case by simp
qed

lemma emotionScores_table:
  "emotionScores s = map (\<lambda>l. (l, biased_total s l)) (encounter_order s)"
proof (rule alist_eqI)
  let ?ems = "present_channels s"
  let ?A = "fold (\<lambda>d. add_to (fst d) (snd d)) ?ems []"
  have es: "emotionScores s = apply_duration (sessionDuration s) (normalize (weight_sum s) ?A)"
    by (simp add: emotionScores_def accumulate_def fold_accumulate_step
        collect_emotions_present weight_sum_def)
  have keysA: "map fst ?A = first_seen [] (map fst ?ems)"
    by (simp add: fold_add_to_keys)
  show keys: "map fst (emotionScores s) = encounter_order s"
    by (simp add: es apply_duration_keys normalize_keys keysA encounter_order_def
        first_seen_append)
  show "distinct (map fst (emotionScores s))"
    unfolding keys encounter_order_def by (rule first_seen_distinct) simp
  have mapA: "map_of ?A l =
      (if l \<in> fst ` set ?ems
       then Some (sum_list (map snd (filter (\<lambda>c. fst c = l) ?ems))) else None)" for l
    by (simp add: fold_add_to_map_of get_own_def)
  have mapN: "map_of (normalize (weight_sum s) ?A) l =
      (if l \<in> fst ` set ?ems then Some (normalized_total s l) else None)" for l
    by (simp add: normalize_map_of mapA normalized_total_def)
  have zero: "normalized_total s l = 0" if "l \<notin> fst ` set ?ems" for l
  proof -
    have "filter (\<lambda>c. fst c = l) ?ems = []" using that by (auto simp: filter_empty_conv)
    then show ?thesis by (simp add: normalized_total_def)
  qed
  have tired: "get_own (normalize (weight_sum s) ?A) ''tired'' = normalized_total s ''tired''"
    by (simp add: get_own_def mapN zero)
  have set_order: "set (encounter_order s) = insert ''tired'' (fst ` set ?ems)"
    by (auto simp: encounter_order_def first_seen_set)
  show "\<forall>k \<in> set (encounter_order s). map_of (emotionScores s) k = Some (biased_total s k)"
    by (auto simp: set_order es apply_duration_map_of mapN tired biased_total_def)
qed


lemma present_channels_Nil:
  "present_channels s = [] \<longleftrightarrow>
     facialEmotion s = None \<and> voiceEmotion s = None \<and> textEmotion s = None"
  by (simp add: present_channels_def split: option.splits)

lemma weight_sum_pos: "present_channels s \<noteq> [] \<Longrightarrow> 0 < weight_sum s"
  unfolding weight_sum_def
  by (rule sum_list_pos_real) (auto dest: present_channels_pos)

lemma biased_total_pos:
  assumes "c \<in> set (present_channels s)"
  shows "0 < biased_total s (fst c)"
proof -
  let ?xs = "filter (\<lambda>c'. fst c' = fst c) (present_channels s)"
  have ne: "map snd ?xs \<noteq> []" using assms by (auto simp: filter_empty_conv)
  have "0 < sum_list (map snd ?xs)"
    by (rule sum_list_pos_real [OF ne]) (auto dest: present_channels_pos)
  moreover have "0 < weight_sum s" using assms by (intro weight_sum_pos) auto
  ultimately have "0 < normalized_total s (fst c)" by (simp add: normalized_total_def)
  moreover have "0 \<le> fatigue_bias (sessionDuration s)" by (simp add: fatigue_bias_def)
  ultimately show ?thesis by (auto simp: biased_total_def)
qed

text \<open>
  Claim C3. With at least one channel present (and plain keys as labels), the table of
  scores that the recompute builds lists the labels in the order in which they are met,
  each with its total: the normalised sum of the weights 0.5, 0.3 and 0.2 of the channels
  that carry it, and for tired the bias on top (0.10 beyond 2700 seconds, a further 0.15
  beyond 5400 seconds; tired is in the table even when no channel carries it). The
  merged emotion is the first label of that table whose total is largest, and the
  confidence is the smaller of that total and 1.
\<close>

theorem fusion_recompute:
  assumes "facialEmotion s \<noteq> None \<or> voiceEmotion s \<noteq> None \<or> textEmotion s \<noteq> None"
    and "list_all plain_key (map fst (present_channels s))"
  shows "emotionScores s = map (\<lambda>l. (l, biased_total s l)) (encounter_order s)
       \<and> first_maximal (emotionScores s) (mergedEmotion (recomputeMergedEmotion now s))
           (biased_total s (mergedEmotion (recomputeMergedEmotion now s)))
       \<and> confidence (recomputeMergedEmotion now s) =
           min (biased_total s (mergedEmotion (recomputeMergedEmotion now s))) 1"
proof -
  have ne: "present_channels s \<noteq> []" using assms(1) by (simp add: present_channels_Nil)
  have tab: "emotionScores s = map (\<lambda>l. (l, biased_total s l)) (encounter_order s)"
    by (rule emotionScores_table)
  obtain k v where kv: "fold max_step (emotionScores s) (''neutral'', 0) = (k, v)"
    by (cases "fold max_step (emotionScores s) (''neutral'', 0)")
  from ne obtain c where c: "c \<in> set (present_channels s)" by (cases "present_channels s") auto
  then have "fst c \<in> set (encounter_order s)"
    by (auto simp: encounter_order_def first_seen_set)
  then have mem: "(fst c, biased_total s (fst c)) \<in> set (emotionScores s)"
    unfolding tab by auto
  from fold_max_step_cases [OF kv] have fm: "first_maximal (emotionScores s) k v"
  proof
    assume "(k, v) = (''neutral'', 0) \<and> (\<forall>(k', v') \<in> set (emotionScores s). v' \<le> 0)"
    with mem biased_total_pos [OF c] show ?thesis by fastforce
  qed simp
  then have "(k, v) \<in> set (emotionScores s)" by (rule first_maximalD)
  then have v: "v = biased_total s k" unfolding tab by auto
  have r: "mergedEmotion (recomputeMergedEmotion now s) = k"
    "confidence (recomputeMergedEmotion now s) = min v 1"
    using ne by (simp_all add: recomputeMergedEmotion_def collect_emotions_present dominant_def kv)
  from tab fm show ?thesis unfolding r v by simp
qed

theorem fusion_recompute_witness:
  "facialEmotion demo_two_channels \<noteq> None \<and> voiceEmotion demo_two_channels \<noteq> None
   \<and> textEmotion demo_two_channels = None
   \<and> list_all plain_key (map fst (present_channels demo_two_channels))
   \<and> emotionScores demo_two_channels = [(''neutral'', 0.625), (''tired'', 0.625)]
   \<and> first_maximal (emotionScores demo_two_channels) ''neutral'' 0.625
   \<and> mergedEmotion (recomputeMergedEmotion 5 demo_two_channels) = ''neutral''
   \<and> confidence (recomputeMergedEmotion 5 demo_two_channels) = 0.625"
proof -
  have a: "facialEmotion demo_two_channels \<noteq> None \<or> voiceEmotion demo_two_channels \<noteq> None \<or>
      textEmotion demo_two_channels \<noteq> None"
    by (simp add: demo_two_channels_def)
  have pc: "present_channels demo_two_channels = [(''neutral'', 0.5), (''tired'', 0.3)]"
    by (simp add: present_channels_def demo_two_channels_def initial_state_def)
  have b: "list_all plain_key (map fst (present_channels demo_two_channels))"
    by (simp add: pc plain_key_def object_prototype_keys_def digits_only_def)
  have d: "sessionDuration demo_two_channels = 6000" by (simp add: demo_two_channels_def)
  have eo: "encounter_order demo_two_channels = [''neutral'', ''tired'']"
    by (simp add: encounter_order_def pc)
  have bt: "biased_total demo_two_channels ''neutral'' = 0.625"
    "biased_total demo_two_channels ''tired'' = 0.625"
    by (simp_all add: biased_total_def normalized_total_def weight_sum_def pc d fatigue_bias_def)
  have m: "mergedEmotion (recomputeMergedEmotion 5 demo_two_channels) = ''neutral''"
    by (simp add: recomputeMergedEmotion_def collect_emotions_present pc dominant_def
        emotionScores_table eo bt max_step_pair)
  note inst = fusion_recompute [OF a b, of 5]
  from inst have t1: "emotionScores demo_two_channels = [(''neutral'', 0.625), (''tired'', 0.625)]"
    by (simp add: eo bt)
  from inst have t2: "first_maximal (emotionScores demo_two_channels) ''neutral'' 0.625"
    unfolding m bt by blast
  from inst have t3: "confidence (recomputeMergedEmotion 5 demo_two_channels) = 0.625"
    unfolding m bt by simp
  have c: "facialEmotion demo_two_channels \<noteq> None" "voiceEmotion demo_two_channels \<noteq> None"
    "textEmotion demo_two_channels = None"
    by (simp_all add: demo_two_channels_def initial_state_def)
  from c b t1 t2 m t3 show ?thesis by (intro conjI)
qed

text \<open>Every label of the vocabulary is a plain key, so the statements above that ask for
  plain keys cover it.\<close>

lemma emotion_labels_plain: "list_all plain_key emotion_labels"
  by (simp add: emotion_labels_def plain_key_def object_prototype_keys_def digits_only_def)

section \<open>Properties of the engine operations\<close>

lemma collect_emotions_Nil:
  "collect_emotions s = [] \<longleftrightarrow>
     facialEmotion s = None \<and> voiceEmotion s = None \<and> textEmotion s = None"
  by (simp add: collect_emotions_def split: option.splits)

lemma recompute_lastUpdate: "lastUpdate (recomputeMergedEmotion now s) = lastUpdate s"
  by (simp add: recomputeMergedEmotion_def split: prod.splits)

lemma recompute_history:
  "collect_emotions s \<noteq> [] \<Longrightarrow>
   emotionHistory (recomputeMergedEmotion now s) =
     push_shift emotionHistoryLimit
       \<lparr> he_emotion = mergedEmotion (recomputeMergedEmotion now s), he_source = Merged,
         he_timestamp = now \<rparr> (emotionHistory s)"
  by (simp add: recomputeMergedEmotion_def split: prod.splits)

subsection \<open>Defaults\<close>

text \<open>
  Claim C5. Neither operation has a failing branch (both are total functions into their
  result types). On the empty window the smoother answers neutral with confidence 0.5,
  and a recompute of a state without any channel sets the merged emotion to neutral and
  the confidence to 0.5, leaving every other field as it was.
\<close>

theorem defaults_without_input:
  "getSmoothedEmotion now [] =
     \<lparr> ses_emotion = ''neutral'', ses_confidence = 0.5, ses_history = [],
       ses_lastUpdate = now \<rparr>
   \<and> (facialEmotion s = None \<and> voiceEmotion s = None \<and> textEmotion s = None \<longrightarrow>
        recomputeMergedEmotion now' s = s\<lparr> mergedEmotion := ''neutral'', confidence := 0.5 \<rparr>)"
  by (simp add: getSmoothedEmotion_def recomputeMergedEmotion_def collect_emotions_Nil)

theorem defaults_without_input_witness:
  "getSmoothedEmotion 7 [] =
     \<lparr> ses_emotion = ''neutral'', ses_confidence = 0.5, ses_history = [],
       ses_lastUpdate = 7 \<rparr>
   \<and> facialEmotion ((initial_state 3)\<lparr> mergedEmotion := ''happy'', confidence := 1 \<rparr>) = None
   \<and> voiceEmotion ((initial_state 3)\<lparr> mergedEmotion := ''happy'', confidence := 1 \<rparr>) = None
   \<and> textEmotion ((initial_state 3)\<lparr> mergedEmotion := ''happy'', confidence := 1 \<rparr>) = None
   \<and> recomputeMergedEmotion 9 ((initial_state 3)\<lparr> mergedEmotion := ''happy'', confidence := 1 \<rparr>)
       = initial_state 3"
  using defaults_without_input
    [of 7 "(initial_state 3)\<lparr> mergedEmotion := ''happy'', confidence := 1 \<rparr>" 9]
  by (simp add: initial_state_def)

subsection \<open>Reset\<close>

text \<open>
  Claim C8, as stated, fails in its closing clause. Both the field initialiser and
  \<^verbatim>\<open>reset()\<close> read the clock for \<^verbatim>\<open>lastUpdate\<close>: an engine created at time 0
  and reset at time 9 holds a state whose stamp is 9, which is not the state observed
  at creation.
\<close>

theorem reset_equals_creation_counterexample:
  "lastUpdate (initial_state 0) = 0
   \<and> lastUpdate (reset 9 (initial_state 0)) = 9
   \<and> reset 9 (initial_state 0) \<noteq> initial_state 0"
  by (simp add: reset_def initial_state_def)

text \<open>
  Claim C8, amended. \<^verbatim>\<open>reset()\<close> discards the state and builds the value of the
  field initialiser again: all three channels absent, session duration 0, merged
  emotion neutral, confidence 0.5, empty history, and \<^verbatim>\<open>lastUpdate\<close> stamped with the
  clock reading of the call. The state after a reset equals the state observed at
  creation (at any time \<open>t0\<close>) in every field other than \<^verbatim>\<open>lastUpdate\<close>.
\<close>

theorem reset_restores_defaults:
  "reset now s = initial_state now
   \<and> reset now s = (initial_state t0)\<lparr> lastUpdate := now \<rparr>
   \<and> facialEmotion (reset now s) = None \<and> voiceEmotion (reset now s) = None
   \<and> textEmotion (reset now s) = None \<and> sessionDuration (reset now s) = 0
   \<and> mergedEmotion (reset now s) = ''neutral'' \<and> confidence (reset now s) = 0.5
   \<and> emotionHistory (reset now s) = []"
  by (simp add: reset_def initial_state_def)

subsection \<open>Frame of the duration update\<close>

text \<open>
  Claim C10. \<^verbatim>\<open>updateSessionDuration\<close> leaves \<^verbatim>\<open>lastUpdate\<close> and the three channels
  as they were, whereas each of the three channel updates stamps \<^verbatim>\<open>lastUpdate\<close>
  with the clock. When no channel is present the history is unchanged too: the state
  after the call is the state before it with the new duration, merged emotion neutral
  and confidence 0.5.
\<close>

theorem session_duration_frame:
  "lastUpdate (updateSessionDuration seconds now' s) = lastUpdate s
   \<and> lastUpdate (updateFacialEmotion f now now' s) = now
   \<and> lastUpdate (updateVoiceEmotion v now now' s) = now
   \<and> lastUpdate (updateTextEmotion t now now' s) = now
   \<and> facialEmotion (updateSessionDuration seconds now' s) = facialEmotion s
   \<and> voiceEmotion (updateSessionDuration seconds now' s) = voiceEmotion s
   \<and> textEmotion (updateSessionDuration seconds now' s) = textEmotion s
   \<and> (facialEmotion s = None \<and> voiceEmotion s = None \<and> textEmotion s = None \<longrightarrow>
        updateSessionDuration seconds now' s =
          s\<lparr> sessionDuration := seconds, mergedEmotion := ''neutral'', confidence := 0.5 \<rparr>
        \<and> emotionHistory (updateSessionDuration seconds now' s) = emotionHistory s)"
  by (simp add: updateSessionDuration_def updateFacialEmotion_def updateVoiceEmotion_def
      updateTextEmotion_def recompute_lastUpdate)
     (simp add: recomputeMergedEmotion_def collect_emotions_Nil split: prod.splits)

theorem session_duration_frame_witness:
  "facialEmotion ((initial_state 5)\<lparr> mergedEmotion := ''happy'', confidence := 1,
       emotionHistory := [\<lparr> he_emotion = ''happy'', he_source = Merged, he_timestamp = 4 \<rparr>] \<rparr>) = None
   \<and> voiceEmotion ((initial_state 5)\<lparr> mergedEmotion := ''happy'', confidence := 1,
       emotionHistory := [\<lparr> he_emotion = ''happy'', he_source = Merged, he_timestamp = 4 \<rparr>] \<rparr>) = None
   \<and> textEmotion ((initial_state 5)\<lparr> mergedEmotion := ''happy'', confidence := 1,
       emotionHistory := [\<lparr> he_emotion = ''happy'', he_source = Merged, he_timestamp = 4 \<rparr>] \<rparr>) = None
   \<and> updateSessionDuration 3000 9
        ((initial_state 5)\<lparr> mergedEmotion := ''happy'', confidence := 1,
           emotionHistory := [\<lparr> he_emotion = ''happy'', he_source = Merged, he_timestamp = 4 \<rparr>] \<rparr>)
       = (initial_state 5)\<lparr> sessionDuration := 3000,
           emotionHistory := [\<lparr> he_emotion = ''happy'', he_source = Merged, he_timestamp = 4 \<rparr>] \<rparr>"
  using session_duration_frame
    [of 3000 9 "(initial_state 5)\<lparr> mergedEmotion := ''happy'', confidence := 1,
       emotionHistory := [\<lparr> he_emotion = ''happy'', he_source = Merged, he_timestamp = 4 \<rparr>] \<rparr>"]
  by (simp add: initial_state_def)

subsection \<open>Response guidelines\<close>

text \<open>
  Claim C9. The guidelines depend on the merged emotion and on nothing else: two states
  with the same merged emotion get the same guidelines (in particular the same state
  asked twice), and changing the confidence changes nothing. The rows of the dispatch
  table are as listed: happy or focused; stressed or anxious; tired or sad; confused;
  and every other label.
\<close>

theorem guidelines_dispatch:
  "(mergedEmotion s = mergedEmotion s' \<longrightarrow> getResponseGuidelines s = getResponseGuidelines s')
   \<and> getResponseGuidelines (s\<lparr> confidence := c \<rparr>) = getResponseGuidelines s
   \<and> (mergedEmotion s \<in> {''happy'', ''focused''} \<longrightarrow>
        tone (getResponseGuidelines s) = Energetic \<and>
        verbosity (getResponseGuidelines s) = Normal \<and>
        detail (getResponseGuidelines s) = Comprehensive \<and>
        \<not> breakNeeded (getResponseGuidelines s) \<and> encouragement (getResponseGuidelines s))
   \<and> (mergedEmotion s \<in> {''stressed'', ''anxious''} \<longrightarrow>
        tone (getResponseGuidelines s) = Calm \<and>
        verbosity (getResponseGuidelines s) = Concise \<and>
        detail (getResponseGuidelines s) = Simplified \<and>
        breakNeeded (getResponseGuidelines s) \<and> encouragement (getResponseGuidelines s))
   \<and> (mergedEmotion s \<in> {''tired'', ''sad''} \<longrightarrow>
        tone (getResponseGuidelines s) = Supportive \<and>
        verbosity (getResponseGuidelines s) = Minimal \<and>
        detail (getResponseGuidelines s) = Simplified \<and>
        breakNeeded (getResponseGuidelines s) \<and> encouragement (getResponseGuidelines s))
   \<and> (mergedEmotion s = ''confused'' \<longrightarrow>
        tone (getResponseGuidelines s) = Patient \<and>
        verbosity (getResponseGuidelines s) = Detailed \<and>
        detail (getResponseGuidelines s) = StepByStep \<and>
        \<not> breakNeeded (getResponseGuidelines s) \<and> encouragement (getResponseGuidelines s))
   \<and> (mergedEmotion s \<notin> {''happy'', ''focused'', ''stressed'', ''anxious'', ''tired'', ''sad'',
                           ''confused''} \<longrightarrow>
        tone (getResponseGuidelines s) = Professional \<and>
        verbosity (getResponseGuidelines s) = Normal \<and>
        detail (getResponseGuidelines s) = Comprehensive \<and>
        \<not> breakNeeded (getResponseGuidelines s) \<and> \<not> encouragement (getResponseGuidelines s))"
  by (simp add: getResponseGuidelines_def)

theorem guidelines_dispatch_witness:
  "mergedEmotion ((initial_state 0)\<lparr> mergedEmotion := ''stressed'' \<rparr>) =
     mergedEmotion ((initial_state 8)\<lparr> mergedEmotion := ''stressed'', confidence := 1 \<rparr>)
   \<and> getResponseGuidelines ((initial_state 0)\<lparr> mergedEmotion := ''stressed'' \<rparr>) =
       getResponseGuidelines ((initial_state 8)\<lparr> mergedEmotion := ''stressed'', confidence := 1 \<rparr>)
   \<and> mergedEmotion ((initial_state 0)\<lparr> mergedEmotion := ''stressed'' \<rparr>) \<in> {''stressed'', ''anxious''}
   \<and> tone (getResponseGuidelines ((initial_state 0)\<lparr> mergedEmotion := ''stressed'' \<rparr>)) = Calm
   \<and> breakNeeded (getResponseGuidelines ((initial_state 0)\<lparr> mergedEmotion := ''stressed'' \<rparr>))
   \<and> mergedEmotion ((initial_state 0)\<lparr> mergedEmotion := ''focused'' \<rparr>) \<in> {''happy'', ''focused''}
   \<and> tone (getResponseGuidelines ((initial_state 0)\<lparr> mergedEmotion := ''focused'' \<rparr>)) = Energetic
   \<and> mergedEmotion ((initial_state 0)\<lparr> mergedEmotion := ''sad'' \<rparr>) \<in> {''tired'', ''sad''}
   \<and> verbosity (getResponseGuidelines ((initial_state 0)\<lparr> mergedEmotion := ''sad'' \<rparr>)) = Minimal
   \<and> mergedEmotion ((initial_state 0)\<lparr> mergedEmotion := ''confused'' \<rparr>) = ''confused''
   \<and> detail (getResponseGuidelines ((initial_state 0)\<lparr> mergedEmotion := ''confused'' \<rparr>)) = StepByStep
   \<and> mergedEmotion ((initial_state 0)\<lparr> mergedEmotion := ''surprised'' \<rparr>) \<notin>
        {''happy'', ''focused'', ''stressed'', ''anxious'', ''tired'', ''sad'', ''confused''}
   \<and> \<not> encouragement (getResponseGuidelines ((initial_state 0)\<lparr> mergedEmotion := ''surprised'' \<rparr>))"
  using
    guidelines_dispatch [of "(initial_state 0)\<lparr> mergedEmotion := ''stressed'' \<rparr>"
       "(initial_state 8)\<lparr> mergedEmotion := ''stressed'', confidence := 1 \<rparr>"]
    guidelines_dispatch [of "(initial_state 0)\<lparr> mergedEmotion := ''focused'' \<rparr>"]
    guidelines_dispatch [of "(initial_state 0)\<lparr> mergedEmotion := ''sad'' \<rparr>"]
    guidelines_dispatch [of "(initial_state 0)\<lparr> mergedEmotion := ''confused'' \<rparr>"]
    guidelines_dispatch [of "(initial_state 0)\<lparr> mergedEmotion := ''surprised'' \<rparr>"]
  by (simp add: initial_state_def getResponseGuidelines_def)

section \<open>Properties of the bounded buffers\<close>

lemma push_shift_full:
  "length xs = n \<Longrightarrow> 0 < n \<Longrightarrow> push_shift n x xs = tl xs @ [x]"
  by (cases xs) (simp_all add: push_shift_def Let_def)

lemma push_shift_below:
  "length xs < n \<Longrightarrow> push_shift n x xs = xs @ [x]"
  by (simp add: push_shift_def Let_def)

lemma last_n_Nil: "last_n n [] = []"
  by (simp add: last_n_def)

lemma length_last_n: "length (last_n n xs) = min n (length xs)"
  by (simp add: last_n_def)

lemma push_shift_last_n:
  assumes "0 < n"
  shows "push_shift n x (last_n n lg) = last_n n (lg @ [x])"
proof (cases "length lg < n")
  case True
  then show ?thesis by (simp add: push_shift_def last_n_def Let_def)
next
  case False
  then have len: "n \<le> length lg" by simp
  then have ne: "drop (length lg - n) lg \<noteq> []" using assms by simp
  have "Suc (length lg) - n = Suc (length lg - n)" using len by simp
  then have "last_n n (lg @ [x]) = drop (Suc (length lg - n)) (lg @ [x])"
    by (simp add: last_n_def)
  also have "\<dots> = tl (drop (length lg - n) (lg @ [x]))"
    by (simp only: drop_Suc tl_drop)
  also have "\<dots> = tl (drop (length lg - n) lg @ [x])" by simp
  finally show ?thesis
    using len assms by (simp add: push_shift_def last_n_def Let_def)
qed

lemma detector_step_window:
  "det_emotionHistory (detector_step op d) =
     (case op of
        StopDetection \<Rightarrow> []
      | ClearHistory \<Rightarrow> []
      | _ \<Rightarrow> (case ingested_reading op d of
                None \<Rightarrow> det_emotionHistory d
              | Some r \<Rightarrow> push_shift maxHistorySize r (det_emotionHistory d)))"
  by (cases op)
     (simp_all add: startDetection_def stopDetection_def clearHistory_def detection_tick_def
        detection_resume_def ingested_reading_def Let_def split: option.splits)

lemma run_detector_log:
  "det_emotionHistory d = last_n maxHistorySize lg \<Longrightarrow>
   det_emotionHistory (run_detector ops d) = last_n maxHistorySize (reading_log ops d lg)"
  unfolding run_detector_def
proof (induction ops arbitrary: d lg)
  case Nil
  then show ?case by simp
next
  case (Cons op ops)
  have "det_emotionHistory (detector_step op d) =
      last_n maxHistorySize
        (case op of StopDetection \<Rightarrow> [] | ClearHistory \<Rightarrow> []
         | _ \<Rightarrow> (case ingested_reading op d of None \<Rightarrow> lg | Some r \<Rightarrow> lg @ [r]))"
    unfolding detector_step_window using Cons.prems
    by (auto simp: last_n_Nil push_shift_last_n maxHistorySize_def
        split: detector_op.splits option.splits)
  from Cons.IH [OF this] show ?case by simp
qed

lemma fusion_step_history:
  "emotionHistory (fusion_step op s) =
     (case op of
        Reset now \<Rightarrow> []
      | _ \<Rightarrow> (case appended_entry op s of
                None \<Rightarrow> emotionHistory s
              | Some e \<Rightarrow> push_shift emotionHistoryLimit e (emotionHistory s)))"
proof (cases op)
  case (UpdateFacialEmotion f now now')
  then show ?thesis
    by (simp add: appended_entry_def merge_clock_def updateFacialEmotion_def recompute_history
        collect_emotions_Nil)
next
  case (UpdateVoiceEmotion v now now')
  then show ?thesis
    by (simp add: appended_entry_def merge_clock_def updateVoiceEmotion_def recompute_history
        collect_emotions_Nil)
next
  case (UpdateTextEmotion t now now')
  then show ?thesis
    by (simp add: appended_entry_def merge_clock_def updateTextEmotion_def recompute_history
        collect_emotions_Nil)
next
  case (UpdateSessionDuration seconds now')
  show ?thesis
  proof (cases "present_channels s = []")
    case True
    then have "collect_emotions (s\<lparr> sessionDuration := seconds \<rparr>) = []"
      by (simp add: collect_emotions_Nil present_channels_Nil)
    then show ?thesis
      using True UpdateSessionDuration
      by (simp add: appended_entry_def merge_clock_def updateSessionDuration_def
          recomputeMergedEmotion_def)
  next
    case False
    then have "collect_emotions (s\<lparr> sessionDuration := seconds \<rparr>) \<noteq> []"
      by (simp add: collect_emotions_Nil present_channels_Nil)
    then show ?thesis
      using False UpdateSessionDuration
      by (simp add: appended_entry_def merge_clock_def updateSessionDuration_def
          recompute_history)
  qed
next
  case (Reset now)
  then show ?thesis by (simp add: reset_def)
qed

lemma run_fusion_log:
  "emotionHistory s = last_n emotionHistoryLimit lg \<Longrightarrow>
   emotionHistory (run_fusion ops s) = last_n emotionHistoryLimit (merge_log ops s lg)"
  unfolding run_fusion_def
proof (induction ops arbitrary: s lg)
  case Nil
  then show ?case by simp
next
  case (Cons op ops)
  have "emotionHistory (fusion_step op s) =
      last_n emotionHistoryLimit
        (case op of Reset now \<Rightarrow> []
         | _ \<Rightarrow> (case appended_entry op s of None \<Rightarrow> lg | Some e \<Rightarrow> lg @ [e]))"
    unfolding fusion_step_history using Cons.prems
    by (auto simp: last_n_Nil push_shift_last_n emotionHistoryLimit_def
        split: fusion_op.splits option.splits)
  from Cons.IH [OF this] show ?case by simp
qed


lemma reading_log_ticks:
  "isRunning d \<Longrightarrow>
   reading_log (map (\<lambda>t. Tick (Some ex) t (g t)) ts) d lg =
     lg @ map (processFaceExpressions ex) ts"
proof (induction ts arbitrary: d lg)
  case Nil
  then show ?case by simp
next
  case (Cons t ts)
  have "isRunning (detector_step (Tick (Some ex) t (g t)) d)"
    using Cons.prems by (simp add: detection_tick_def detection_resume_def Let_def)
  from Cons.IH [OF this] Cons.prems show ?case
    by (simp add: ingested_reading_def)
qed

lemma reading_timestamp: "fed_timestamp (processFaceExpressions ex now) = now"
  by (simp add: processFaceExpressions_def split: prod.splits)

lemma text_only_step:
  assumes "text_only s"
  shows "text_only (fusion_step (UpdateSessionDuration seconds now') s)"
    and "appended_entry (UpdateSessionDuration seconds now') s = Some (demo_merge now')"
proof -
  let ?s = "s\<lparr> sessionDuration := seconds \<rparr>"
  have ce: "collect_emotions ?s = [(''happy'', text_weight)]"
    using assms by (simp add: text_only_def collect_emotions_def demo_text_def)
  have m: "mergedEmotion (recomputeMergedEmotion now' ?s) = ''happy''"
    using recompute_single [OF ce] by (simp add: text_weight_def)
  show "text_only (fusion_step (UpdateSessionDuration seconds now') s)"
    using assms ce
    by (simp add: text_only_def updateSessionDuration_def recomputeMergedEmotion_def
        split: prod.splits)
  have "present_channels s \<noteq> []"
    using assms by (simp add: text_only_def present_channels_Nil)
  then show "appended_entry (UpdateSessionDuration seconds now') s = Some (demo_merge now')"
    using m by (simp add: appended_entry_def merge_clock_def updateSessionDuration_def
        demo_merge_def)
qed

lemma merge_log_durations:
  "text_only s \<Longrightarrow>
   merge_log (map (\<lambda>n. UpdateSessionDuration (f n) (g n)) ns) s lg =
     lg @ map (\<lambda>n. demo_merge (g n)) ns"
proof (induction ns arbitrary: s lg)
  case Nil
  then show ?case by simp
next
  case (Cons n ns)
  from Cons.IH [OF text_only_step(1) [OF Cons.prems]] text_only_step(2) [OF Cons.prems]
  show ?case by simp
qed

lemma demo_first_merge:
  "text_only (fusion_step (UpdateTextEmotion demo_text 0 0) (initial_state 0))"
  "appended_entry (UpdateTextEmotion demo_text 0 0) (initial_state 0) = Some (demo_merge 0)"
proof -
  let ?s = "(initial_state 0)\<lparr> textEmotion := Some demo_text, lastUpdate := 0 \<rparr>"
  have ce: "collect_emotions ?s = [(''happy'', text_weight)]"
    by (simp add: collect_emotions_def demo_text_def initial_state_def)
  have m: "mergedEmotion (recomputeMergedEmotion 0 ?s) = ''happy''"
    using recompute_single [OF ce] by (simp add: text_weight_def)
  show "text_only (fusion_step (UpdateTextEmotion demo_text 0 0) (initial_state 0))"
    using ce
    by (simp add: text_only_def updateTextEmotion_def recomputeMergedEmotion_def
        initial_state_def split: prod.splits)
  show "appended_entry (UpdateTextEmotion demo_text 0 0) (initial_state 0) = Some (demo_merge 0)"
    using m by (simp add: appended_entry_def merge_clock_def updateTextEmotion_def
        demo_merge_def)
qed

text \<open>
  Claim C7. After every sequence of calls on a new detector, the window is the last 10
  readings handed to it since it was last emptied, in the order of their arrival; after
  every sequence of operations on a new engine, the history is the last 50 merges
  since the last reset, in the order in which they were made. So the window never
  holds more than 10 readings and the history never more than 50 entries, and the
  oldest entry leaves first. Step by step: a reading or a merge entry is appended at
  the end while the buffer is below its limit, and removes the head when the buffer is
  full.
\<close>

theorem bounded_fifo_buffers:
  "det_emotionHistory (run_detector ops new_detector) =
     last_n 10 (reading_log ops new_detector [])
   \<and> length (det_emotionHistory (run_detector ops new_detector)) \<le> 10
   \<and> emotionHistory (run_fusion fops (initial_state t)) =
       last_n 50 (merge_log fops (initial_state t) [])
   \<and> length (emotionHistory (run_fusion fops (initial_state t))) \<le> 50
   \<and> (isRunning d \<and> length (det_emotionHistory d) < 10 \<longrightarrow>
        det_emotionHistory (fst (detection_tick (Some ex) now now' d)) =
          det_emotionHistory d @ [processFaceExpressions ex now])
   \<and> (isRunning d \<and> length (det_emotionHistory d) = 10 \<longrightarrow>
        det_emotionHistory (fst (detection_tick (Some ex) now now' d)) =
          tl (det_emotionHistory d) @ [processFaceExpressions ex now])
   \<and> (collect_emotions s \<noteq> [] \<and> length (emotionHistory s) < 50 \<longrightarrow>
        emotionHistory (recomputeMergedEmotion t' s) =
          emotionHistory s @
          [\<lparr> he_emotion = mergedEmotion (recomputeMergedEmotion t' s), he_source = Merged,
             he_timestamp = t' \<rparr>])
   \<and> (collect_emotions s \<noteq> [] \<and> length (emotionHistory s) = 50 \<longrightarrow>
        emotionHistory (recomputeMergedEmotion t' s) =
          tl (emotionHistory s) @
          [\<lparr> he_emotion = mergedEmotion (recomputeMergedEmotion t' s), he_source = Merged,
             he_timestamp = t' \<rparr>])"
proof -
  have a: "det_emotionHistory (run_detector ops new_detector) =
     last_n 10 (reading_log ops new_detector [])"
    using run_detector_log [of new_detector "[]" ops]
    by (simp add: new_detector_def maxHistorySize_def last_n_Nil)
  have a': "length (det_emotionHistory (run_detector ops new_detector)) \<le> 10"
    by (simp add: a length_last_n)
  have b: "emotionHistory (run_fusion fops (initial_state t)) =
       last_n 50 (merge_log fops (initial_state t) [])"
    using run_fusion_log [of "initial_state t" "[]" fops]
    by (simp add: initial_state_def emotionHistoryLimit_def last_n_Nil)
  have b': "length (emotionHistory (run_fusion fops (initial_state t))) \<le> 50"
    by (simp add: b length_last_n)
  have c: "det_emotionHistory (fst (detection_tick (Some ex) now now' d)) =
          det_emotionHistory d @ [processFaceExpressions ex now]"
    if "isRunning d" "length (det_emotionHistory d) < 10"
    using that
    by (simp add: detection_tick_def detection_resume_def Let_def push_shift_below
        maxHistorySize_def)
  have c': "det_emotionHistory (fst (detection_tick (Some ex) now now' d)) =
          tl (det_emotionHistory d) @ [processFaceExpressions ex now]"
    if "isRunning d" "length (det_emotionHistory d) = 10"
    using that
    by (simp add: detection_tick_def detection_resume_def Let_def push_shift_full
        maxHistorySize_def)
  have d: "emotionHistory (recomputeMergedEmotion t' s) =
          emotionHistory s @
          [\<lparr> he_emotion = mergedEmotion (recomputeMergedEmotion t' s), he_source = Merged,
             he_timestamp = t' \<rparr>]"
    if "collect_emotions s \<noteq> []" "length (emotionHistory s) < 50"
    using that by (simp add: recompute_history push_shift_below emotionHistoryLimit_def)
  have d': "emotionHistory (recomputeMergedEmotion t' s) =
          tl (emotionHistory s) @
          [\<lparr> he_emotion = mergedEmotion (recomputeMergedEmotion t' s), he_source = Merged,
             he_timestamp = t' \<rparr>]"
    if "collect_emotions s \<noteq> []" "length (emotionHistory s) = 50"
    using that by (simp add: recompute_history push_shift_full emotionHistoryLimit_def)
  from a a' b b' c c' d d' show ?thesis by blast
qed

theorem bounded_fifo_buffers_witness:
  "length demo_detector_ops = 12
   \<and> det_emotionHistory (run_detector demo_detector_ops new_detector) =
       map (processFaceExpressions demo_expressions) [2, 3, 4, 5, 6, 7, 8, 9, 10, 11]
   \<and> map fed_timestamp (det_emotionHistory (run_detector demo_detector_ops new_detector)) =
       [2, 3, 4, 5, 6, 7, 8, 9, 10, 11]
   \<and> length demo_fusion_ops = 51
   \<and> emotionHistory (run_fusion demo_fusion_ops (initial_state 0)) =
       map (\<lambda>n. demo_merge (int n)) [1..<51]
   \<and> hd (emotionHistory (run_fusion demo_fusion_ops (initial_state 0))) = demo_merge 1
   \<and> demo_merge 0 \<notin> set (emotionHistory (run_fusion demo_fusion_ops (initial_state 0)))"
proof -
  note inst = bounded_fifo_buffers [of demo_detector_ops demo_fusion_ops 0]
  have rl: "reading_log demo_detector_ops new_detector [] =
      map (processFaceExpressions demo_expressions) demo_clock"
    using reading_log_ticks [of "startDetection new_detector" demo_expressions "\<lambda>t. t + 1"
        demo_clock "[]"]
    by (simp add: demo_detector_ops_def ingested_reading_def startDetection_def)
  from inst have w: "det_emotionHistory (run_detector demo_detector_ops new_detector) =
       map (processFaceExpressions demo_expressions) [2, 3, 4, 5, 6, 7, 8, 9, 10, 11]"
    by (simp add: rl last_n_def demo_clock_def)
  have ml: "merge_log demo_fusion_ops (initial_state 0) [] =
      demo_merge 0 # map (\<lambda>n. demo_merge (int n)) [1..<51]"
    using merge_log_durations [OF demo_first_merge(1), of real int "[1..<51]" "[demo_merge 0]"]
    by (simp add: demo_fusion_ops_def demo_first_merge(2))
  from inst have h: "emotionHistory (run_fusion demo_fusion_ops (initial_state 0)) =
       map (\<lambda>n. demo_merge (int n)) [1..<51]"
    by (simp add: ml last_n_def)
  have h1: "hd (map (\<lambda>n. demo_merge (int n)) [1..<51]) = demo_merge 1"
    by (simp add: upt_conv_Cons hd_map)
  have h0: "demo_merge 0 \<notin> set (map (\<lambda>n. demo_merge (int n)) [1..<51])"
    by (auto simp: demo_merge_def)
  show ?thesis
    unfolding h w using h1 h0
    by (simp add: reading_timestamp demo_detector_ops_def demo_fusion_ops_def demo_clock_def)
qed

section \<open>Properties of the state handed out\<close>

lemma facial_at_other:
  "allocated st r \<Longrightarrow> cells st' = (cells st)(next_addr st \<mapsto> c) \<Longrightarrow>
   facial_at st' r = facial_at st r"
  by (cases r) (simp_all add: facial_at_def allocated_def)

lemma voice_at_other:
  "allocated st r \<Longrightarrow> cells st' = (cells st)(next_addr st \<mapsto> c) \<Longrightarrow>
   voice_at st' r = voice_at st r"
  by (cases r) (simp_all add: voice_at_def allocated_def)

lemma text_at_other:
  "allocated st r \<Longrightarrow> cells st' = (cells st)(next_addr st \<mapsto> c) \<Longrightarrow>
   text_at st' r = text_at st r"
  by (cases r) (simp_all add: text_at_def allocated_def)

lemma history_at_other:
  "a < next_addr st \<Longrightarrow> cells st' = (cells st)(next_addr st \<mapsto> c) \<Longrightarrow>
   history_at st' a = history_at st a"
  by (simp add: history_at_def)

lemma wf_engineD:
  assumes "wf_engine st cur"
  obtains obj where "cells st cur = Some (StateObject obj)" "cur < next_addr st"
    "allocated st (o_facialEmotion obj)" "allocated st (o_voiceEmotion obj)"
    "allocated st (o_textEmotion obj)" "o_emotionHistory obj < next_addr st"
proof (cases "cells st cur")
  case None
  with assms show ?thesis by (simp add: wf_engine_def)
next
  case (Some c)
  with assms that show ?thesis by (cases c) (simp_all add: wf_engine_def)
qed

lemma getCurrentState_wf:
  assumes "wf_engine st cur"
  shows "\<exists>obj. cells st cur = Some (StateObject obj) \<and>
      getCurrentState cur st = Some (alloc (StateObject obj) st)"
proof -
  from assms obtain obj where "cells st cur = Some (StateObject obj)" by (rule wf_engineD)
  then show ?thesis by (simp add: getCurrentState_def)
qed

lemma state_at_other:
  assumes "wf_engine st cur" "cells st' = (cells st)(next_addr st \<mapsto> c)"
  shows "state_at st' cur = state_at st cur"
proof -
  from assms(1) obtain obj where obj: "cells st cur = Some (StateObject obj)" "cur < next_addr st"
    "allocated st (o_facialEmotion obj)" "allocated st (o_voiceEmotion obj)"
    "allocated st (o_textEmotion obj)" "o_emotionHistory obj < next_addr st"
    by (rule wf_engineD)
  have "cells st' cur = Some (StateObject obj)" using obj assms(2) by simp
  then show ?thesis
    using obj assms(2)
    by (simp add: state_at_def facial_at_other voice_at_other text_at_other history_at_other)
qed

lemma state_at_copy:
  assumes "wf_engine st cur" "cells st cur = Some (StateObject obj)"
    "cells st' = (cells st)(next_addr st \<mapsto> StateObject obj)"
  shows "state_at st' (next_addr st) = state_at st cur"
proof -
  from assms(1) obtain obj' where obj: "cells st cur = Some (StateObject obj')"
    "allocated st (o_facialEmotion obj')" "allocated st (o_voiceEmotion obj')"
    "allocated st (o_textEmotion obj')" "o_emotionHistory obj' < next_addr st"
    by (rule wf_engineD)
  have eq: "obj' = obj" using obj(1) assms(2) by simp
  have "cells st' (next_addr st) = Some (StateObject obj)" using assms(3) by simp
  then show ?thesis
    using obj(2-) assms(2,3) unfolding eq
    by (simp add: state_at_def facial_at_other voice_at_other text_at_other history_at_other)
qed

lemma new_engine_state:
  "state_at (snd (new_engine now empty_store)) (fst (new_engine now empty_store)) =
     Some (initial_state now)"
  by (simp add: new_engine_def alloc_def empty_store_def state_at_def facial_at_def
      voice_at_def text_at_def history_at_def initial_state_def)

lemma demo_engine_eval:
  "fst demo_engine = 1"
  "next_addr (snd demo_engine) = 2"
  "cells (snd demo_engine) 0 = Some (HistoryArray [])"
  "cells (snd demo_engine) (Suc 0) = Some (StateObject
     \<lparr> o_facialEmotion = None, o_voiceEmotion = None, o_textEmotion = None,
       o_sessionDuration = 0, o_mergedEmotion = ''neutral'', o_confidence = 0.5,
       o_lastUpdate = 0, o_emotionHistory = 0 \<rparr>)"
  by (simp_all add: demo_engine_def new_engine_def alloc_def empty_store_def)

text \<open>
  Claim C1, as stated, fails. The copy made by \<^verbatim>\<open>getCurrentState\<close> is one level deep:
  the returned object refers to the engine's own history array, and a push through the
  returned reference shows in the engine's state.
\<close>

theorem defensive_copy_counterexample:
  "getCurrentState (fst demo_engine) (snd demo_engine) = Some demo_copy
   \<and> map_option emotionHistory (state_at (snd demo_copy) (fst demo_engine)) = Some []
   \<and> map_option emotionHistory
        (state_at
           (history_push (fst demo_copy)
              \<lparr> he_emotion = ''happy'', he_source = Facial, he_timestamp = 1 \<rparr> (snd demo_copy))
           (fst demo_engine)) =
      Some [\<lparr> he_emotion = ''happy'', he_source = Facial, he_timestamp = 1 \<rparr>]"
  by (simp add: demo_copy_def getCurrentState_def demo_engine_eval state_at_def history_at_def
       history_push_def alloc_def)

text \<open>
  Claim C1, amended. \<^verbatim>\<open>getCurrentState\<close> returns a new object whose fields have the
  values of the engine's fields at the time of the call. In every store in which the
  engine's state is allocated, the call succeeds, the returned object denotes the same
  fusion state as the engine's, and no assignment to fields of the returned object
  changes the state the engine holds.
\<close>

theorem shallow_copy:
  assumes "wf_engine st currentState"
  shows "\<exists>r st'. getCurrentState currentState st = Some (r, st')
           \<and> r \<noteq> currentState
           \<and> state_at st' r = state_at st currentState
           \<and> state_at st' currentState = state_at st currentState
           \<and> (\<forall>g. state_at (assign_fields r g st') currentState = state_at st currentState)"
proof -
  from getCurrentState_wf [OF assms] obtain obj where
    obj: "cells st currentState = Some (StateObject obj)" and
    get: "getCurrentState currentState st = Some (alloc (StateObject obj) st)" by blast
  let ?r = "next_addr st"
  let ?st' = "snd (alloc (StateObject obj) st)"
  have ne: "?r \<noteq> currentState" using assms by (auto simp: wf_engine_def)
  have same: "state_at ?st' currentState = state_at st currentState"
    by (rule state_at_other [OF assms]) (simp add: alloc_def)
  have copy: "state_at ?st' ?r = state_at st currentState"
    by (rule state_at_copy [OF assms obj]) (simp add: alloc_def)
  have upd: "state_at (assign_fields ?r g ?st') currentState = state_at st currentState" for g
    by (rule state_at_other [OF assms, where c = "StateObject (g obj)"])
       (simp add: assign_fields_def alloc_def)
  have "getCurrentState currentState st = Some (?r, ?st')"
    using get by (simp add: alloc_def)
  then show ?thesis
    using ne same copy upd by (intro exI conjI allI)
qed

theorem shallow_copy_witness:
  "wf_engine (snd demo_engine) (fst demo_engine)
   \<and> (\<exists>r st'. getCurrentState (fst demo_engine) (snd demo_engine) = Some (r, st')
         \<and> r \<noteq> fst demo_engine
         \<and> state_at st' r = Some (initial_state 0)
         \<and> state_at st' (fst demo_engine) = Some (initial_state 0)
         \<and> (\<forall>g. state_at (assign_fields r g st') (fst demo_engine) = Some (initial_state 0)))"
proof -
  have wf: "wf_engine (snd demo_engine) (fst demo_engine)"
    by (simp add: wf_engine_def demo_engine_eval allocated_def)
  have st: "state_at (snd demo_engine) (fst demo_engine) = Some (initial_state 0)"
    unfolding demo_engine_def by (rule new_engine_state)
  from shallow_copy [OF wf] show ?thesis
    unfolding st using wf by blast
qed

end
